theory Spec2Isabelle
  imports Complex_Main "HOL-Library.Multiset"
begin

section \<open>JavaScript numbers\<close>

text \<open>
  A JavaScript number is a double: not-a-number, a finite value or one of the two
  infinities. A finite double is kept as the real number it denotes (\<open>-0\<close> is not told
  from \<open>0\<close>). Parsing and arithmetic round their exact result to the nearest double, a tie
  to the even significand, and overflow to an infinity.
\<close>

datatype jsnum = NaN | Fin real | PosInf | NegInf

text \<open>The number of binary digits of a natural number.\<close>

fun bit_length :: "nat \<Rightarrow> nat" where
  "bit_length n = (if n = 0 then 0 else Suc (bit_length (n div 2)))"

declare bit_length.simps [simp del]

text \<open>The binary exponent of a positive real \<open>x\<close>: the \<open>e\<close> with \<open>2^e \<le> x < 2^(e + 1)\<close>.\<close>

definition floor_log2 :: "real \<Rightarrow> int" where
  "floor_log2 x =
     (if 1 \<le> x then int (bit_length (nat \<lfloor>x\<rfloor>)) - 1
      else - int (bit_length (nat (\<lceil>1 / x\<rceil> - 1))))"

definition pow2 :: "int \<Rightarrow> real" where
  "pow2 e = (if 0 \<le> e then 2 ^ nat e else 1 / 2 ^ nat (- e))"

text \<open>The nearest integer, a tie to the even one.\<close>

definition round_ties_even :: "real \<Rightarrow> int" where
  "round_ties_even q =
     (if q - of_int \<lfloor>q\<rfloor> < 1 / 2 then \<lfloor>q\<rfloor>
      else if 1 / 2 < q - of_int \<lfloor>q\<rfloor> then \<lfloor>q\<rfloor> + 1
      else if even \<lfloor>q\<rfloor> then \<lfloor>q\<rfloor> else \<lfloor>q\<rfloor> + 1)"

text \<open>
  The spacing of the doubles around a real \<open>x \<noteq> 0\<close>, as a power of two: a double has a
  significand of 53 binary digits, and below \<open>2^-1022\<close> (the subnormal range) the spacing
  stays \<open>2^-1074\<close>.
\<close>

definition ulp_exponent :: "real \<Rightarrow> int" where
  "ulp_exponent x = (if \<bar>x\<bar> < 1 / 2 ^ 1022 then - 1074 else floor_log2 \<bar>x\<bar> - 52)"

text \<open>
  The double of a real. The largest finite double is \<open>2^1024 - 2^971\<close>; a real at or beyond
  the midpoint between it and \<open>2^1024\<close> becomes an infinity.
\<close>

definition to_double :: "real \<Rightarrow> jsnum" where
  "to_double x =
     (if x = 0 then Fin 0
      else if 2 ^ 1024 - 2 ^ 970 \<le> \<bar>x\<bar> then (if 0 < x then PosInf else NegInf)
      else Fin (of_int (round_ties_even (x / pow2 (ulp_exponent x))) * pow2 (ulp_exponent x)))"

text \<open>The sum of two doubles, as \<open>+=\<close> computes it.\<close>

fun js_add :: "jsnum \<Rightarrow> jsnum \<Rightarrow> jsnum" where
  "js_add NaN b = NaN"
| "js_add a NaN = NaN"
| "js_add (Fin a) (Fin b) = to_double (a + b)"
| "js_add (Fin a) PosInf = PosInf"
| "js_add (Fin a) NegInf = NegInf"
| "js_add PosInf (Fin b) = PosInf"
| "js_add NegInf (Fin b) = NegInf"
| "js_add PosInf PosInf = PosInf"
| "js_add PosInf NegInf = NaN"
| "js_add NegInf PosInf = NaN"
| "js_add NegInf NegInf = NegInf"

text \<open>The product of two doubles, as \<open>value * 100\<close> computes it.\<close>

fun js_times :: "jsnum \<Rightarrow> jsnum \<Rightarrow> jsnum" where
  "js_times NaN b = NaN"
| "js_times a NaN = NaN"
| "js_times (Fin a) (Fin b) = to_double (a * b)"
| "js_times (Fin a) PosInf = (if a = 0 then NaN else if 0 < a then PosInf else NegInf)"
| "js_times (Fin a) NegInf = (if a = 0 then NaN else if 0 < a then NegInf else PosInf)"
| "js_times PosInf (Fin b) = (if b = 0 then NaN else if 0 < b then PosInf else NegInf)"
| "js_times NegInf (Fin b) = (if b = 0 then NaN else if 0 < b then NegInf else PosInf)"
| "js_times PosInf PosInf = PosInf"
| "js_times PosInf NegInf = NegInf"
| "js_times NegInf PosInf = NegInf"
| "js_times NegInf NegInf = PosInf"

fun js_negate :: "jsnum \<Rightarrow> jsnum" where
  "js_negate NaN = NaN"
| "js_negate (Fin x) = Fin (- x)"
| "js_negate PosInf = NegInf"
| "js_negate NegInf = PosInf"

text \<open>The comparisons of doubles: every comparison with \<open>NaN\<close> is false.\<close>

fun js_less :: "jsnum \<Rightarrow> jsnum \<Rightarrow> bool" where
  "js_less NaN b = False"
| "js_less a NaN = False"
| "js_less (Fin a) (Fin b) = (a < b)"
| "js_less (Fin a) PosInf = True"
| "js_less (Fin a) NegInf = False"
| "js_less PosInf b = False"
| "js_less NegInf (Fin b) = True"
| "js_less NegInf PosInf = True"
| "js_less NegInf NegInf = False"

fun js_less_eq :: "jsnum \<Rightarrow> jsnum \<Rightarrow> bool" where
  "js_less_eq NaN b = False"
| "js_less_eq a NaN = False"
| "js_less_eq a b = (a = b \<or> js_less a b)"

section \<open>JavaScript values of the result payload\<close>

text \<open>One entry of \<open>monthly_revenues\<close>: \<open>{year, month, revenue}\<close>.\<close>

record monthly_revenue =
  year :: int
  month :: int
  revenue :: jsnum

text \<open>
  The values a property of the result payload holds: \<open>null\<close>, a boolean, a number or the
  array of monthly revenues. \<open>JUndefined\<close> is what reading an absent property gives.
\<close>

datatype jsval =
    JUndefined
  | JNull
  | JBool bool
  | JNum jsnum
  | JArr "monthly_revenue list"

text \<open>An object is a finite map from property names to values.\<close>

type_synonym jsobject = "string \<rightharpoonup> jsval"

definition get_prop :: "jsobject \<Rightarrow> string \<Rightarrow> jsval" where
  "get_prop obj name = (case obj name of None \<Rightarrow> JUndefined | Some v \<Rightarrow> v)"

text \<open>\<open>ToBoolean\<close>: what \<open>!value\<close>, \<open>&&\<close> and \<open>||\<close> test.\<close>

fun truthy :: "jsval \<Rightarrow> bool" where
  "truthy JUndefined = False"
| "truthy JNull = False"
| "truthy (JBool b) = b"
| "truthy (JNum NaN) = False"
| "truthy (JNum (Fin x)) = (x \<noteq> 0)"
| "truthy (JNum PosInf) = True"
| "truthy (JNum NegInf) = True"
| "truthy (JArr xs) = True"

text \<open>
  \<open>ToNumber\<close>. An array goes through its string form: the empty array is the empty
  string, hence \<open>0\<close>; an array of objects is not a numeric string.
\<close>

fun ToNumber :: "jsval \<Rightarrow> jsnum" where
  "ToNumber JUndefined = NaN"
| "ToNumber JNull = Fin 0"
| "ToNumber (JBool b) = (if b then Fin 1 else Fin 0)"
| "ToNumber (JNum n) = n"
| "ToNumber (JArr xs) = (if xs = [] then Fin 0 else NaN)"

definition isNaN :: "jsval \<Rightarrow> bool" where
  "isNaN value = (ToNumber value = NaN)"

section \<open>The strings the components build\<close>

text \<open>
  A string is the concatenation of its parts. \<open>Lit s\<close> is the text \<open>s\<close>; two formatters of
  the runtime are kept as they are called: \<open>CurrencyFormat v\<close> is the \<open>Intl.NumberFormat\<close>
  USD formatter (no fraction digits) applied to \<open>v\<close>, and \<open>NumberToString n\<close> is the string
  of the number \<open>n\<close> (a number spliced into a template literal).
\<close>

datatype part =
    Lit string
  | CurrencyFormat jsval
  | NumberToString jsnum

type_synonym jsstring = "part list"

datatype error = TypeError

text \<open>The decimal digits of a natural number.\<close>

fun decimal :: "nat \<Rightarrow> string" where
  "decimal n =
     (if n < 10 then [''0123456789'' ! n]
      else decimal (n div 10) @ [''0123456789'' ! (n mod 10)])"

declare decimal.simps [simp del]

text \<open>
  \<open>x.toFixed(f)\<close> for \<open>0 \<le> x < 10^21\<close>: the digits of the integer \<open>n\<close> nearest to \<open>x * 10^f\<close>
  (the larger one of two), padded with zeros to more than \<open>f\<close> digits, with a point before
  the last \<open>f\<close> of them.
\<close>

definition fixed_digits :: "real \<Rightarrow> nat \<Rightarrow> string" where
  "fixed_digits x f =
     (let m = decimal (nat \<lfloor>x * 10 ^ f + 1 / 2\<rfloor>);
          padded = replicate (Suc f - length m) CHR ''0'' @ m
      in if f = 0 then m
         else take (length padded - f) padded @ ''.'' @ drop (length padded - f) padded)"

text \<open>
  \<open>Number.prototype.toFixed\<close>. A number that is not finite gives its own string; a finite
  one of magnitude \<open>10^21\<close> or more gives the string of the number (an exponent form).
\<close>

fun toFixed :: "jsnum \<Rightarrow> nat \<Rightarrow> part" where
  "toFixed NaN f = Lit ''NaN''"
| "toFixed PosInf f = Lit ''Infinity''"
| "toFixed NegInf f = Lit ''-Infinity''"
| "toFixed (Fin x) f =
     (if 10 ^ 21 \<le> \<bar>x\<bar> then NumberToString (Fin x)
      else Lit ((if x < 0 then ''-'' else []) @ fixed_digits \<bar>x\<bar> f))"

section \<open>ResultsDisplay.jsx\<close>

definition formatCurrency :: "jsval \<Rightarrow> jsstring" where
  "formatCurrency value = [CurrencyFormat value]"

definition formatPercent :: "jsval \<Rightarrow> jsstring" where
  "formatPercent value =
     (if \<not> truthy value \<or> isNaN value then [Lit ''N/A'']
      else [toFixed (js_times (ToNumber value) (Fin 100)) 2, Lit ''%''])"

text \<open>
  \<open>v.toFixed(2)\<close>: a method of numbers only; on any other value of the payload the call
  throws a \<open>TypeError\<close>.
\<close>

fun toFixed2 :: "jsval \<Rightarrow> error + part" where
  "toFixed2 (JNum n) = Inr (toFixed n 2)"
| "toFixed2 v = Inl TypeError"

text \<open>\<open>v?.toFixed(2)\<close>: \<open>undefined\<close> (nothing is rendered) when \<open>v\<close> is null or undefined.\<close>

fun toFixed2_optional :: "jsval \<Rightarrow> error + part option" where
  "toFixed2_optional JUndefined = Inr None"
| "toFixed2_optional JNull = Inr None"
| "toFixed2_optional (JNum n) = Inr (Some (toFixed n 2))"
| "toFixed2_optional v = Inl TypeError"

text \<open>\<open>v.length\<close> for a truthy value of the payload, and the test \<open>v.length > 0\<close>.\<close>

fun js_length :: "jsval \<Rightarrow> jsval" where
  "js_length (JArr xs) = JNum (Fin (real (length xs)))"
| "js_length v = JUndefined"

fun js_gt0 :: "jsval \<Rightarrow> bool" where
  "js_gt0 v = (case ToNumber v of Fin x \<Rightarrow> 0 < x | PosInf \<Rightarrow> True | _ \<Rightarrow> False)"

text \<open>
  A JSX child \<open>{a && <element/>}\<close> is the falsy value of \<open>a\<close> itself, or the element.
\<close>

datatype 'a child = Value jsval | Element 'a

section \<open>MonthlyRevenueChart.jsx\<close>

text \<open>
  \<open>yearlyData\<close> is an object keyed by the year; each value is \<open>{year, revenue}\<close>. It is
  kept as the list of its properties in the order they were created.
\<close>

record yearly_item =
  item_year :: int
  item_revenue :: jsnum

type_synonym yearlyData = "(int \<times> yearly_item) list"

text \<open>\<open>if (!yearlyData[year]) yearlyData[year] = {year, revenue: 0}\<close>\<close>

definition ensure_year :: "yearlyData \<Rightarrow> int \<Rightarrow> yearlyData" where
  "ensure_year yd y =
     (case map_of yd y of
        None \<Rightarrow> yd @ [(y, \<lparr>item_year = y, item_revenue = Fin 0\<rparr>)]
      | Some item \<Rightarrow> yd)"

text \<open>\<open>yearlyData[year].revenue += entry.revenue\<close>\<close>

definition add_revenue :: "yearlyData \<Rightarrow> int \<Rightarrow> jsnum \<Rightarrow> yearlyData" where
  "add_revenue yd y r =
     map (\<lambda>(k, item). if k = y then (k, item\<lparr>item_revenue := js_add (item_revenue item) r\<rparr>)
                        else (k, item)) yd"

text \<open>The body of \<open>data.forEach\<close>, and the loop.\<close>

definition add_entry :: "yearlyData \<Rightarrow> monthly_revenue \<Rightarrow> yearlyData" where
  "add_entry yd entry = add_revenue (ensure_year yd (year entry)) (year entry) (revenue entry)"

definition group_by_year :: "monthly_revenue list \<Rightarrow> yearlyData" where
  "group_by_year data = foldl add_entry [] data"

text \<open>
  \<open>Object.values\<close> lists the properties whose keys are array indices
  (\<open>0 .. 2^32 - 2\<close>) first, in ascending order, then the others in creation order.
\<close>

definition is_array_index :: "int \<Rightarrow> bool" where
  "is_array_index k = (0 \<le> k \<and> k \<le> 4294967294)"

definition object_values :: "yearlyData \<Rightarrow> yearly_item list" where
  "object_values yd =
     map snd (sort_key fst (filter (\<lambda>p. is_array_index (fst p)) yd)
              @ filter (\<lambda>p. \<not> is_array_index (fst p)) yd)"

record chart_point =
  point_year :: jsstring
  point_revenue :: jsnum
  revenueFormatted :: jsstring

definition to_point :: "yearly_item \<Rightarrow> chart_point" where
  "to_point item =
     \<lparr>point_year = [Lit ''Year '', NumberToString (Fin (real_of_int (item_year item)))],
      point_revenue = item_revenue item,
      revenueFormatted = [CurrencyFormat (JNum (item_revenue item))]\<rparr>"

text \<open>
  The memoised \<open>chartData\<close>. A falsy \<open>data\<close> or an empty array gives \<open>[]\<close>; a truthy value
  that is not an array has no \<open>forEach\<close>, and the call throws.
\<close>

fun chartData :: "jsval \<Rightarrow> error + chart_point list" where
  "chartData (JArr data) =
     (if data = [] then Inr [] else Inr (map to_point (object_values (group_by_year data))))"
| "chartData v = (if \<not> truthy v then Inr [] else Inl TypeError)"

datatype chart_view = NoRevenueData | LineChart "chart_point list"

definition MonthlyRevenueChart :: "jsval \<Rightarrow> error + chart_view" where
  "MonthlyRevenueChart data =
     (case chartData data of
        Inl e \<Rightarrow> Inl e
      | Inr points \<Rightarrow> Inr (if length points = 0 then NoRevenueData else LineChart points))"

section \<open>ResultsDisplay.jsx: the component\<close>

text \<open>What the component renders: the text of each card and the two optional sections.\<close>

record results_view =
  pv_size_text :: jsstring
  bess_size_text :: jsstring
  capex_text :: jsstring
  npv_text :: jsstring
  irr_text :: jsstring
  total_revenue_text :: jsstring
  chart_section :: "chart_view child"
  info_section :: "jsstring child"

datatype display = NoResults | Results results_view

text \<open>
  \<open>{results.monthly_revenues && results.monthly_revenues.length > 0 && (...)}\<close>
\<close>

definition render_chart_section :: "jsval \<Rightarrow> error + chart_view child" where
  "render_chart_section m =
     (if \<not> truthy m then Inr (Value m)
      else if \<not> js_gt0 (js_length m) then Inr (Value (JBool False))
      else (case MonthlyRevenueChart m of
              Inl e \<Rightarrow> Inl e
            | Inr chart \<Rightarrow> Inr (Element chart)))"

text \<open>
  \<open>{results.representative_days_used && (... {results.scale_factor?.toFixed(2)}x scaling
  from 52 representative days ...)}\<close>
\<close>

definition render_info_section :: "jsval \<Rightarrow> jsval \<Rightarrow> error + jsstring child" where
  "render_info_section used scale =
     (if \<not> truthy used then Inr (Value used)
      else (case toFixed2_optional scale of
              Inl e \<Rightarrow> Inl e
            | Inr t \<Rightarrow>
                Inr (Element
                  ([Lit ''Note: Optimization used ''] @ (case t of None \<Rightarrow> [] | Some p \<Rightarrow> [p])
                   @ [Lit ''x scaling from 52 representative days to represent the full year.'']))))"

text \<open>
  The component. \<open>results\<close> is the object handed over by the parent, or \<open>null\<close>. The
  expressions of the JSX are evaluated top to bottom; the first that throws ends the
  rendering.
\<close>

definition ResultsDisplay :: "jsobject option \<Rightarrow> error + display" where
  "ResultsDisplay results =
     (case results of
        None \<Rightarrow> Inr NoResults
      | Some r \<Rightarrow>
         (case toFixed2 (get_prop r ''optimal_pv_size_mw'') of
            Inl e \<Rightarrow> Inl e
          | Inr pv \<Rightarrow>
         (case toFixed2 (get_prop r ''optimal_bess_size_mwh'') of
            Inl e \<Rightarrow> Inl e
          | Inr bess \<Rightarrow>
         (case render_chart_section (get_prop r ''monthly_revenues'') of
            Inl e \<Rightarrow> Inl e
          | Inr chart \<Rightarrow>
         (case render_info_section (get_prop r ''representative_days_used'')
                 (get_prop r ''scale_factor'') of
            Inl e \<Rightarrow> Inl e
          | Inr info \<Rightarrow>
              Inr (Results
                \<lparr>pv_size_text = [pv, Lit '' MW''],
                 bess_size_text = [bess, Lit '' MWh''],
                 capex_text = formatCurrency (get_prop r ''capex_total''),
                 npv_text = formatCurrency (get_prop r ''npv''),
                 irr_text = formatPercent (get_prop r ''irr''),
                 total_revenue_text = formatCurrency (get_prop r ''total_revenue_25_years''),
                 chart_section = chart,
                 info_section = info\<rparr>))))))"

text \<open>The property names the component reads from \<open>results\<close>.\<close>

definition ResultsDisplay_props :: "string list" where
  "ResultsDisplay_props =
     [''optimal_pv_size_mw'', ''optimal_bess_size_mwh'', ''capex_total'', ''npv'', ''irr'',
      ''total_revenue_25_years'', ''monthly_revenues'', ''representative_days_used'',
      ''scale_factor'']"

text \<open>
  The result payload with exactly the field names of the specification's interface
  section, filled with the values of the example response in PLAN.md.
\<close>

definition spec_payload :: jsobject where
  "spec_payload =
     [''optimal_pv_size_mw'' \<mapsto> JNum (Fin 75.5),
      ''optimal_bess_size_mwh'' \<mapsto> JNum (Fin 150),
      ''npv'' \<mapsto> JNum (Fin 2500000),
      ''irr'' \<mapsto> JNum (Fin 0.125),
      ''capex_total'' \<mapsto> JNum (Fin 107500000),
      ''monthly_revenues'' \<mapsto> JArr [\<lparr>year = 1, month = 1, revenue = Fin 125000\<rparr>],
      ''total_revenue_over_horizon'' \<mapsto> JNum (Fin 150000000)]"


section \<open>UploadForm.jsx: validateForm\<close>

text \<open>
  The text of an input element is a JavaScript string: a sequence of UTF-16 code units,
  each a number below \<open>2^16\<close>. \<open>ascii\<close> gives the code units of a text written in ASCII.
\<close>

type_synonym ustring = "nat list"

definition ascii :: "string \<Rightarrow> ustring" where
  "ascii s = map of_char s"

text \<open>
  The form's state: every field holds the text of its input element. The two files are
  \<open>null\<close> until one is chosen; a chosen file is represented by its name.
\<close>

record formData =
  pvCapexPerMw :: ustring
  bessCapexPerMwh :: ustring
  discountRate :: ustring
  interconnectionCapacityMw :: ustring
  onsiteLoadPricePerMwh :: ustring
  onsiteLoadMaxMw :: ustring
  yoyPriceEscalationRate :: ustring
  pvMaxSizeMw :: ustring
  bessMaxSizeMwh :: ustring

record files =
  pvProduction :: "string option"
  pricing :: "string option"

text \<open>\<open>formData[field]\<close>: the property of that name, \<open>undefined\<close> (\<open>None\<close>) for any other name.\<close>

definition formData_get :: "formData \<Rightarrow> string \<Rightarrow> ustring option" where
  "formData_get fd field =
     (if field = ''pvCapexPerMw'' then Some (pvCapexPerMw fd)
      else if field = ''bessCapexPerMwh'' then Some (bessCapexPerMwh fd)
      else if field = ''discountRate'' then Some (discountRate fd)
      else if field = ''interconnectionCapacityMw'' then Some (interconnectionCapacityMw fd)
      else if field = ''onsiteLoadPricePerMwh'' then Some (onsiteLoadPricePerMwh fd)
      else if field = ''onsiteLoadMaxMw'' then Some (onsiteLoadMaxMw fd)
      else if field = ''yoyPriceEscalationRate'' then Some (yoyPriceEscalationRate fd)
      else if field = ''pvMaxSizeMw'' then Some (pvMaxSizeMw fd)
      else if field = ''bessMaxSizeMwh'' then Some (bessMaxSizeMwh fd)
      else None)"

subsection \<open>The runtime's \<open>trim\<close> and \<open>parseFloat\<close>\<close>

text \<open>
  White space and line terminators, as \<open>trim\<close> strips and \<open>parseFloat\<close> skips them: tab,
  line feed, vertical tab, form feed, carriage return, space, no-break space, the other
  space separators of Unicode (\<open>U+1680\<close>, \<open>U+2000\<close> to \<open>U+200A\<close>, \<open>U+202F\<close>, \<open>U+205F\<close>,
  \<open>U+3000\<close>), the line and paragraph separators and the byte order mark.
\<close>

definition is_whitespace :: "nat \<Rightarrow> bool" where
  "is_whitespace c =
     (c \<in> {0x09, 0x0A, 0x0B, 0x0C, 0x0D, 0x20, 0xA0, 0x1680, 0x2028, 0x2029, 0x202F, 0x205F,
            0x3000, 0xFEFF}
      \<or> (0x2000 \<le> c \<and> c \<le> 0x200A))"

definition js_trim :: "ustring \<Rightarrow> ustring" where
  "js_trim s = rev (dropWhile is_whitespace (rev (dropWhile is_whitespace s)))"

text \<open>The value of a decimal digit (\<open>0\<close> is the code unit 48).\<close>

definition digit_of :: "nat \<Rightarrow> nat option" where
  "digit_of c = (if 48 \<le> c \<and> c \<le> 57 then Some (c - 48) else None)"

text \<open>The longest prefix of decimal digits, as their values, and the rest of the string.\<close>

fun take_digits :: "ustring \<Rightarrow> nat list \<times> ustring" where
  "take_digits [] = ([], [])"
| "take_digits (c # cs) =
     (case digit_of c of
        None \<Rightarrow> ([], c # cs)
      | Some d \<Rightarrow> (let (ds, rest) = take_digits cs in (d # ds, rest)))"

definition digits_value :: "nat list \<Rightarrow> nat" where
  "digits_value ds = foldl (\<lambda>acc d. 10 * acc + d) 0 ds"

definition pow10 :: "int \<Rightarrow> real" where
  "pow10 e = (if 0 \<le> e then 10 ^ nat e else 1 / 10 ^ nat (- e))"

text \<open>
  The exponent part at the head of a string: \<open>e\<close> or \<open>E\<close>, an optional sign and at least
  one digit. Without one the exponent is \<open>0\<close>.
\<close>

definition exponent_part :: "ustring \<Rightarrow> int" where
  "exponent_part s =
     (case s of
        [] \<Rightarrow> 0
      | c # r \<Rightarrow>
          if c = of_char CHR ''e'' \<or> c = of_char CHR ''E'' then
            (case r of
               [] \<Rightarrow> 0
             | c' # r' \<Rightarrow>
                 if c' = of_char CHR ''-'' then
                   (case take_digits r' of ([], u) \<Rightarrow> 0 | (d # ds, u) \<Rightarrow> - int (digits_value (d # ds)))
                 else if c' = of_char CHR ''+'' then
                   (case take_digits r' of ([], u) \<Rightarrow> 0 | (d # ds, u) \<Rightarrow> int (digits_value (d # ds)))
                 else
                   (case take_digits r of ([], u) \<Rightarrow> 0 | (d # ds, u) \<Rightarrow> int (digits_value (d # ds))))
          else 0)"

text \<open>
  \<open>parseFloat\<close>: leading white space is skipped, then the longest prefix that is a decimal
  literal (an optional sign, then \<open>Infinity\<close> or digits with an optional fraction and
  exponent) is read; \<open>NaN\<close> when there is none. The result is the double of the literal's
  value.
\<close>

definition parse_unsigned :: "ustring \<Rightarrow> jsnum" where
  "parse_unsigned s =
     (if take 8 s = ascii ''Infinity'' then PosInf
      else
        (let (ip, s2) = take_digits s;
             (fp, s3) = (case s2 of
                           [] \<Rightarrow> ([], [])
                         | c # r \<Rightarrow> if c = of_char CHR ''.'' then take_digits r else ([], s2))
         in if ip = [] \<and> fp = [] then NaN
            else to_double ((real (digits_value ip) + real (digits_value fp) / 10 ^ length fp)
                            * pow10 (exponent_part s3))))"

definition parseFloat :: "ustring \<Rightarrow> jsnum" where
  "parseFloat input =
     (case dropWhile is_whitespace input of
        [] \<Rightarrow> NaN
      | c # r \<Rightarrow>
          if c = of_char CHR ''-'' then js_negate (parse_unsigned r)
          else if c = of_char CHR ''+'' then parse_unsigned r
          else parse_unsigned (c # r))"

subsection \<open>The validation\<close>

definition requiredFields :: "string list" where
  "requiredFields =
     [''pvCapexPerMw'', ''bessCapexPerMwh'', ''discountRate'', ''interconnectionCapacityMw'',
      ''onsiteLoadPricePerMwh'', ''onsiteLoadMaxMw'', ''yoyPriceEscalationRate'']"

text \<open>\<open>newErrors\<close>: an object from field names to messages.\<close>

type_synonym errors = "string \<rightharpoonup> string"

text \<open>
  The body of \<open>requiredFields.forEach\<close>. \<open>!value\<close> holds for \<open>undefined\<close> and for the empty
  string.
\<close>

definition check_required :: "formData \<Rightarrow> errors \<Rightarrow> string \<Rightarrow> errors" where
  "check_required fd newErrors field =
     (case formData_get fd field of
        None \<Rightarrow> newErrors(field \<mapsto> ''This field is required'')
      | Some value \<Rightarrow>
          if value = [] \<or> js_trim value = [] then
            newErrors(field \<mapsto> ''This field is required'')
          else if parseFloat value = NaN \<or> js_less_eq (parseFloat value) (Fin 0) then
            newErrors(field \<mapsto> ''Must be a positive number'')
          else newErrors)"

text \<open>The check of an optional field: only when its text is not empty.\<close>

definition check_optional :: "ustring \<Rightarrow> errors \<Rightarrow> string \<Rightarrow> errors" where
  "check_optional value newErrors field =
     (if value \<noteq> [] \<and> (parseFloat value = NaN \<or> js_less_eq (parseFloat value) (Fin 0))
      then newErrors(field \<mapsto> ''Must be a positive number'')
      else newErrors)"

text \<open>The errors \<open>validateForm\<close> collects, in the order of its statements.\<close>

definition validation_errors :: "files \<Rightarrow> formData \<Rightarrow> errors" where
  "validation_errors fs fd =
     (let e0 = Map.empty;
          e1 = (if pvProduction fs = None
                then e0(''pvProduction'' \<mapsto> ''PV production CSV file is required'') else e0);
          e2 = (if pricing fs = None
                then e1(''pricing'' \<mapsto> ''Pricing CSV file is required'') else e1);
          e3 = foldl (check_required fd) e2 requiredFields;
          e4 = (if discountRate fd \<noteq> []
                   \<and> (js_less (parseFloat (discountRate fd)) (Fin 0)
                        \<or> js_less (Fin 1) (parseFloat (discountRate fd)))
                then e3(''discountRate'' \<mapsto>
                        ''Discount rate must be between 0 and 1 (e.g., 0.08 for 8%)'')
                else e3);
          e5 = check_optional (pvMaxSizeMw fd) e4 ''pvMaxSizeMw'';
          e6 = check_optional (bessMaxSizeMwh fd) e5 ''bessMaxSizeMwh''
      in e6)"

text \<open>\<open>return Object.keys(newErrors).length === 0\<close>\<close>

definition validateForm :: "files \<Rightarrow> formData \<Rightarrow> bool" where
  "validateForm fs fd = (dom (validation_errors fs fd) = {})"

text \<open>Both files chosen, every required field with a positive number, no optional field.\<close>

definition chosen_files :: files where
  "chosen_files = \<lparr>pvProduction = Some ''pv_production.csv'', pricing = Some ''pricing.csv''\<rparr>"

definition plan_form :: formData where
  "plan_form =
     \<lparr>pvCapexPerMw = ascii ''1000000'', bessCapexPerMwh = ascii ''300000'',
      discountRate = ascii ''0.08'', interconnectionCapacityMw = ascii ''100'',
      onsiteLoadPricePerMwh = ascii ''50'', onsiteLoadMaxMw = ascii ''20'',
      yoyPriceEscalationRate = ascii ''0.02'', pvMaxSizeMw = [], bessMaxSizeMwh = []\<rparr>"

section \<open>App.jsx and ProgressIndicator.jsx: polling a task\<close>

text \<open>
  The body of the response to \<open>GET /api/status/{task_id}\<close>. \<open>progress\<close> is a number or
  absent, \<open>message\<close> a string or absent, \<open>results\<close> an object or absent.
\<close>

record statusData =
  status :: string
  progress :: jsval
  message :: "string option"
  results :: "jsobject option"


text \<open>The state of \<open>App\<close> and of \<open>ProgressIndicator\<close> (\<open>useState\<close>).\<close>

record app_state =
  currentTaskId :: "string option"
  app_results :: "jsobject option"
  app_error :: "string option"

record indicator_state =
  shown_status :: string
  shown_progress :: jsval
  shown_message :: string





definition handleReset :: "app_state \<Rightarrow> app_state" where
  "handleReset st = st\<lparr>currentTaskId := None, app_results := None, app_error := None\<rparr>"


text \<open>\<open>a || b\<close> on a string that may be absent: the empty string is falsy.\<close>

definition or_default :: "string option \<Rightarrow> string \<Rightarrow> string" where
  "or_default a b = (case a of None \<Rightarrow> b | Some m \<Rightarrow> if m = [] then b else m)"









section \<open>The optimisation engine, from the specification\<close>

text \<open>
  The engine (model builder, solution extractor, financial engine) is
  the backend of the repository; its code is not among the sources. The definitions of
  this section are modelled from the specification, over the reals.
\<close>

subsection \<open>Data model\<close>

text \<open>
  Modelled from the spec: ScenarioParameters (the builder's scenario record, with the
  project horizon in years).
\<close>

record ScenarioParameters =
  pv_capex_per_mw :: real
  bess_capex_per_mwh :: real
  discount_rate :: real
  interconnection_capacity_mw :: real
  onsite_load_price_per_mwh :: real
  onsite_load_max_mw :: real
  yoy_price_escalation_rate :: real
  pv_max_size_mw :: "real option"
  bess_max_size_mwh :: "real option"
  horizon :: nat

text \<open>
  Modelled from the spec: RepresentativeDay, a block of consecutive hours (24 of them),
  each with its production factor and price, and the number of days it stands for.
\<close>

record RepresentativeDay =
  weight :: real
  day_hours :: "(real \<times> real) list"

text \<open>Modelled from the spec: the builder's \<open>mode\<close>.\<close>

datatype mode = LP_RELAXED | MILP_STRICT

text \<open>
  Modelled from the spec: DecisionVariables. A flow and a state of charge are indexed by
  the representative hour (from \<open>0\<close>) and the project year (from \<open>1\<close>); \<open>soc h y\<close> is the
  charge at the start of hour \<open>h\<close>, so that \<open>soc (h + 1) y\<close> exists for the last hour too.
\<close>

datatype variable =
    pv_size_mw
  | bess_size_mwh
  | pv_to_grid nat nat
  | pv_to_onsite nat nat
  | pv_to_battery nat nat
  | battery_to_grid nat nat
  | battery_to_onsite nat nat
  | grid_to_battery nat nat
  | soc nat nat
  | battery_mode nat

text \<open>Modelled from the spec: the kind of a variable, continuous and non-negative, or binary.\<close>

datatype domain = NonNegative | Binary

text \<open>
  Modelled from the spec: the in-memory model (variables, constraints, objective). A
  linear expression is a list of terms \<open>coefficient * variable\<close>; a constraint compares one
  with a constant.
\<close>

type_synonym linexp = "(real \<times> variable) list"

text \<open>Modelled from the spec: a linear constraint, an equation or an upper bound.\<close>

datatype constraint = Eq linexp real | Le linexp real

text \<open>Modelled from the spec: the model object the builder returns.\<close>

record lp_model =
  variables :: "(variable \<times> domain) list"
  constraints :: "constraint list"
  objective :: linexp

text \<open>Modelled from the spec: the solver's variable values.\<close>

type_synonym assignment = "variable \<Rightarrow> real"

text \<open>Modelled from the spec: the value of a linear expression under variable values.\<close>

definition linexp_value :: "assignment \<Rightarrow> linexp \<Rightarrow> real" where
  "linexp_value a e = sum_list (map (\<lambda>(k, v). k * a v) e)"

text \<open>Modelled from the spec: a constraint holds under variable values.\<close>

fun holds :: "assignment \<Rightarrow> constraint \<Rightarrow> bool" where
  "holds a (Eq e b) = (linexp_value a e = b)"
| "holds a (Le e b) = (linexp_value a e \<le> b)"

text \<open>Modelled from the spec: a value is within the kind of its variable.\<close>

fun in_domain :: "domain \<Rightarrow> real \<Rightarrow> bool" where
  "in_domain NonNegative x = (0 \<le> x)"
| "in_domain Binary x = (x = 0 \<or> x = 1)"

text \<open>Modelled from the spec: a feasible solution keeps every variable in its kind and
  satisfies every constraint.\<close>

definition feasible :: "lp_model \<Rightarrow> assignment \<Rightarrow> bool" where
  "feasible m a =
     (list_all (\<lambda>(v, d). in_domain d (a v)) (variables m) \<and> list_all (holds a) (constraints m))"


text \<open>Modelled from the spec: the variables a constraint mentions.\<close>

fun vars_of :: "constraint \<Rightarrow> variable set" where
  "vars_of (Eq e b) = snd ` set e"
| "vars_of (Le e b) = snd ` set e"

subsection \<open>Model builder\<close>

text \<open>
  Modelled from the spec: the representative hours of a year, in order; each carries its
  day's weight, its production factor and its year-1 price.
\<close>

definition rep_hours :: "RepresentativeDay list \<Rightarrow> (real \<times> real \<times> real) list" where
  "rep_hours days =
     concat (map (\<lambda>d. map (\<lambda>(production, price). (weight d, production, price)) (day_hours d)) days)"

text \<open>Modelled from the spec: the project years, \<open>1..horizon\<close>.\<close>

definition years :: "ScenarioParameters \<Rightarrow> nat list" where
  "years sc = [1..<Suc (horizon sc)]"

text \<open>Modelled from the spec: constraint 8, \<open>price[y] = price[1] * (1 + escalation)^(y - 1)\<close>.\<close>

definition escalated :: "ScenarioParameters \<Rightarrow> nat \<Rightarrow> real \<Rightarrow> real" where
  "escalated sc y p = p * (1 + yoy_price_escalation_rate sc) ^ (y - 1)"

text \<open>Modelled from the spec: the discount factor of the objective, \<open>1 / (1 + r)^(y - 1)\<close>.\<close>

definition objective_discount :: "ScenarioParameters \<Rightarrow> nat \<Rightarrow> real" where
  "objective_discount sc y = 1 / (1 + discount_rate sc) ^ (y - 1)"

text \<open>
  Modelled from the spec: the constraints 1 to 5 of one hour of one year (PV balance,
  export cap, on-site cap, battery balance without loss, upper bound of the charge).
\<close>

definition hour_constraints ::
  "ScenarioParameters \<Rightarrow> nat \<Rightarrow> nat \<Rightarrow> real \<times> real \<times> real \<Rightarrow> constraint list" where
  "hour_constraints sc y h hr =
     (case hr of (w, production, price) \<Rightarrow>
       [Eq [(production, pv_size_mw), (- 1, pv_to_grid h y), (- 1, pv_to_onsite h y),
            (- 1, pv_to_battery h y)] 0,
        Le [(1, pv_to_grid h y), (1, battery_to_grid h y)] (interconnection_capacity_mw sc),
        Le [(1, pv_to_onsite h y), (1, battery_to_onsite h y)] (onsite_load_max_mw sc),
        Eq [(1, soc (Suc h) y), (- 1, soc h y), (- 1, pv_to_battery h y),
            (- 1, grid_to_battery h y), (1, battery_to_grid h y), (1, battery_to_onsite h y)] 0,
        Le [(1, soc (Suc h) y), (- 1, bess_size_mwh)] 0])"

text \<open>
  Modelled from the spec: constraint 6, the two big-M constraints of one hour,
  \<open>pv_to_battery + grid_to_battery \<le> M * mode[h]\<close> and
  \<open>battery_to_grid + battery_to_onsite \<le> M * (1 - mode[h])\<close>, with \<open>M\<close> handed to the
  builder.
\<close>

definition charge_exclusive :: "real \<Rightarrow> nat \<Rightarrow> nat \<Rightarrow> constraint" where
  "charge_exclusive M y h =
     Le [(1, pv_to_battery h y), (1, grid_to_battery h y), (- M, battery_mode h)] 0"

text \<open>Modelled from the spec: constraint 6, the bound on discharging,
  \<open>battery_to_grid + battery_to_onsite + M * mode[h] \<le> M\<close>.\<close>

definition discharge_exclusive :: "real \<Rightarrow> nat \<Rightarrow> nat \<Rightarrow> constraint" where
  "discharge_exclusive M y h =
     Le [(1, battery_to_grid h y), (1, battery_to_onsite h y), (M, battery_mode h)] M"

text \<open>Modelled from the spec: constraint 6 is added in the strict mode only.\<close>

definition exclusivity_constraints :: "mode \<Rightarrow> real \<Rightarrow> nat \<Rightarrow> nat \<Rightarrow> constraint list" where
  "exclusivity_constraints md M y h =
     (case md of
        LP_RELAXED \<Rightarrow> []
      | MILP_STRICT \<Rightarrow> [charge_exclusive M y h, discharge_exclusive M y h])"

text \<open>
  Modelled from the spec: the charge at the start of a year. Year 1 starts empty; a later
  year starts with the charge the year before ended with (the yearly continuity).
\<close>

definition year_start_constraints :: "nat \<Rightarrow> nat \<Rightarrow> constraint list" where
  "year_start_constraints H y =
     (if y = 1 then [Eq [(1, soc 0 y)] 0]
      else [Eq [(1, soc 0 y), (- 1, soc H (y - 1))] 0])
     @ [Le [(1, soc 0 y), (- 1, bess_size_mwh)] 0]"

text \<open>Modelled from the spec: constraint 7, the optional size ceilings.\<close>

definition ceiling_constraints :: "ScenarioParameters \<Rightarrow> constraint list" where
  "ceiling_constraints sc =
     (case pv_max_size_mw sc of None \<Rightarrow> [] | Some m \<Rightarrow> [Le [(1, pv_size_mw)] m])
     @ (case bess_max_size_mwh sc of None \<Rightarrow> [] | Some m \<Rightarrow> [Le [(1, bess_size_mwh)] m])"

text \<open>
  Modelled from the spec: the undiscounted net revenue of one hour of one year as a linear
  expression, \<open>weight * (revenue - grid_charging_cost)\<close> at the escalated prices.
\<close>

definition hour_net_terms ::
  "ScenarioParameters \<Rightarrow> nat \<Rightarrow> nat \<Rightarrow> real \<times> real \<times> real \<Rightarrow> linexp" where
  "hour_net_terms sc y h hr =
     (case hr of (w, production, price) \<Rightarrow>
       [(w * escalated sc y price, pv_to_grid h y),
        (w * escalated sc y price, battery_to_grid h y),
        (w * escalated sc y (onsite_load_price_per_mwh sc), pv_to_onsite h y),
        (w * escalated sc y (onsite_load_price_per_mwh sc), battery_to_onsite h y),
        (- (w * escalated sc y price), grid_to_battery h y)])"

text \<open>Modelled from the spec: a linear expression times a constant (the discounting).\<close>

definition scale :: "real \<Rightarrow> linexp \<Rightarrow> linexp" where
  "scale k e = map (\<lambda>(c, v). (k * c, v)) e"

text \<open>
  Modelled from the spec: the objective, the net revenue of every year discounted by
  \<open>(1 + discount_rate)^(y - 1)\<close>, minus the capex of the two sizes.
\<close>

definition objective_terms :: "ScenarioParameters \<Rightarrow> (real \<times> real \<times> real) list \<Rightarrow> linexp" where
  "objective_terms sc hrs =
     concat (map (\<lambda>y. scale (objective_discount sc y)
                         (concat (map (\<lambda>(h, hr). hour_net_terms sc y h hr) (enumerate 0 hrs))))
                 (years sc))
     @ [(- pv_capex_per_mw sc, pv_size_mw), (- bess_capex_per_mwh sc, bess_size_mwh)]"

text \<open>Modelled from the spec: the six flows of an hour, and the charge at its end.\<close>

definition hour_variables :: "nat \<Rightarrow> nat \<Rightarrow> (variable \<times> domain) list" where
  "hour_variables y h =
     [(pv_to_grid h y, NonNegative), (pv_to_onsite h y, NonNegative),
      (pv_to_battery h y, NonNegative), (battery_to_grid h y, NonNegative),
      (battery_to_onsite h y, NonNegative), (grid_to_battery h y, NonNegative),
      (soc (Suc h) y, NonNegative)]"

text \<open>Modelled from the spec: one binary \<open>battery_mode\<close> per representative hour, in the strict mode
  only.\<close>

definition mode_variables :: "mode \<Rightarrow> nat \<Rightarrow> (variable \<times> domain) list" where
  "mode_variables md H =
     (case md of
        LP_RELAXED \<Rightarrow> []
      | MILP_STRICT \<Rightarrow> map (\<lambda>h. (battery_mode h, Binary)) [0..<H])"

text \<open>
  Modelled from the spec: the invariant of the scenario the builder checks (discount and
  escalation rate not negative, ceilings positive when present).
\<close>

definition valid_scenario :: "ScenarioParameters \<Rightarrow> bool" where
  "valid_scenario sc =
     (0 \<le> discount_rate sc \<and> 0 \<le> yoy_price_escalation_rate sc
      \<and> (case pv_max_size_mw sc of None \<Rightarrow> True | Some m \<Rightarrow> 0 < m)
      \<and> (case bess_max_size_mwh sc of None \<Rightarrow> True | Some m \<Rightarrow> 0 < m))"

text \<open>
  Modelled from the spec: the failures of the error taxonomy that end a solve. (A failed
  IRR root-finding is recovered locally and ends nothing.)
\<close>

datatype engine_error =
    InvalidInput
  | InvalidConfiguration
  | InvalidScenario
  | SolverInfeasible
  | SolverTimeout
  | InternalConsistencyError

text \<open>
  Modelled from the spec: \<open>build\<close>. The capability models are the idealised ones (no loss,
  no degradation), so they add no term.
\<close>

definition build ::
  "ScenarioParameters \<Rightarrow> RepresentativeDay list \<Rightarrow> mode \<Rightarrow> real \<Rightarrow> engine_error + lp_model" where
  "build sc days md M =
     (if \<not> valid_scenario sc then Inl InvalidScenario
      else
        (let hrs = rep_hours days; H = length hrs in
         Inr \<lparr>variables =
                [(pv_size_mw, NonNegative), (bess_size_mwh, NonNegative)]
                @ concat (map (\<lambda>y. (soc 0 y, NonNegative) # concat (map (hour_variables y) [0..<H]))
                              (years sc))
                @ mode_variables md H,
              constraints =
                concat (map (\<lambda>y. year_start_constraints H y
                                  @ concat (map (\<lambda>(h, hr). hour_constraints sc y h hr
                                                             @ exclusivity_constraints md M y h)
                                                (enumerate 0 hrs)))
                            (years sc))
                @ ceiling_constraints sc,
              objective = objective_terms sc hrs\<rparr>))"

subsection \<open>Solution extractor and financial engine\<close>

text \<open>
  Modelled from the spec: the extractor's cash flows, \<open>cashFlow[0] = - capex\<close> and
  \<open>cashFlow[y]\<close> the sum over the hours of year \<open>y\<close> of \<open>weight * (revenue - chargingCost)\<close>.
\<close>

definition capex :: "ScenarioParameters \<Rightarrow> assignment \<Rightarrow> real" where
  "capex sc a = a pv_size_mw * pv_capex_per_mw sc + a bess_size_mwh * bess_capex_per_mwh sc"

text \<open>Modelled from the spec: \<open>weight * (revenue - chargingCost)\<close> of one hour of one year, at the
  escalated prices.\<close>

definition hour_net :: "ScenarioParameters \<Rightarrow> assignment \<Rightarrow> nat \<Rightarrow> nat \<Rightarrow> real \<times> real \<times> real \<Rightarrow> real" where
  "hour_net sc a y h hr =
     (case hr of (w, production, price) \<Rightarrow>
        w * ((a (pv_to_grid h y) + a (battery_to_grid h y)) * escalated sc y price
             + (a (pv_to_onsite h y) + a (battery_to_onsite h y))
               * escalated sc y (onsite_load_price_per_mwh sc)
             - a (grid_to_battery h y) * escalated sc y price))"

text \<open>Modelled from the spec: \<open>cashFlow[y]\<close> for a year \<open>y\<close> of the horizon.\<close>

definition year_cash_flow ::
  "ScenarioParameters \<Rightarrow> RepresentativeDay list \<Rightarrow> assignment \<Rightarrow> nat \<Rightarrow> real" where
  "year_cash_flow sc days a y =
     sum_list (map (\<lambda>(h, hr). hour_net sc a y h hr) (enumerate 0 (rep_hours days)))"

text \<open>Modelled from the spec: the cash-flow series, year 0 first.\<close>

definition cashFlows :: "ScenarioParameters \<Rightarrow> RepresentativeDay list \<Rightarrow> assignment \<Rightarrow> real list" where
  "cashFlows sc days a = (- capex sc a) # map (year_cash_flow sc days a) (years sc)"

text \<open>
  Modelled from the spec: \<open>NPV(cashFlows, discountRate)\<close>, the sum over \<open>y = 0..horizon\<close> of
  \<open>cashFlows[y] / (1 + discountRate)^y\<close>.
\<close>

definition NPV :: "real list \<Rightarrow> real \<Rightarrow> real" where
  "NPV cfs r = sum_list (map (\<lambda>(y, c). c / (1 + r) ^ y) (enumerate 0 cfs))"



section \<open>Notions used to state the formatting of numbers\<close>

definition is_digit :: "char \<Rightarrow> bool" where
  "is_digit c = (c \<in> set ''0123456789'')"

section \<open>Notions used to state the chart's aggregation\<close>












section \<open>Notions used to state the form's validation\<close>

text \<open>The message \<open>requiredFields.forEach\<close> stores for a field, if any.\<close>

definition required_error :: "formData \<Rightarrow> string \<Rightarrow> string option" where
  "required_error fd field =
     (case formData_get fd field of
        None \<Rightarrow> Some ''This field is required''
      | Some value \<Rightarrow>
          if value = [] \<or> js_trim value = [] then Some ''This field is required''
          else if parseFloat value = NaN \<or> js_less_eq (parseFloat value) (Fin 0)
          then Some ''Must be a positive number''
          else None)"

text \<open>
  The inputs of the specification's Scenario A that the form asks for: both capex rates
  \<open>0\<close>, discount rate \<open>0.08\<close>, interconnection cap \<open>100\<close>, on-site cap \<open>0\<close>; with an on-site
  price of \<open>50\<close> and no escalation.
\<close>

definition scenario_A_form :: formData where
  "scenario_A_form =
     \<lparr>pvCapexPerMw = ascii ''0'', bessCapexPerMwh = ascii ''0'', discountRate = ascii ''0.08'',
      interconnectionCapacityMw = ascii ''100'', onsiteLoadPricePerMwh = ascii ''50'',
      onsiteLoadMaxMw = ascii ''0'', yoyPriceEscalationRate = ascii ''0'',
      pvMaxSizeMw = [], bessMaxSizeMwh = []\<rparr>"

section \<open>Notions used to state the outcome of a task\<close>

text \<open>What the setters of the indicator are called with at a response.\<close>

definition shown :: "statusData \<Rightarrow> indicator_state" where
  "shown sd =
     \<lparr>shown_status = status sd,
      shown_progress = (if truthy (progress sd) then progress sd else JNum (Fin 0)),
      shown_message = or_default (message sd) ''Processing...''\<rparr>"














section \<open>Notions used to state the engine's properties\<close>

text \<open>
  A scenario with one representative day that stands for the whole year: production and
  a price of 110 in the first hour only, a discount rate of 10 percent, a horizon of one
  year, and a PV ceiling of 1 MW. Its best plan builds 1 MW of PV and sells the first
  hour's production to the grid.
\<close>

definition seed_scenario :: ScenarioParameters where
  "seed_scenario =
     \<lparr>pv_capex_per_mw = 36500, bess_capex_per_mwh = 1000, discount_rate = 1 / 10,
      interconnection_capacity_mw = 10, onsite_load_price_per_mwh = 0, onsite_load_max_mw = 0,
      yoy_price_escalation_rate = 0, pv_max_size_mw = Some 1, bess_max_size_mwh = None,
      horizon = 1\<rparr>"

definition seed_day :: RepresentativeDay where
  "seed_day = \<lparr>weight = 365, day_hours = (1, 110) # replicate 23 (0, 0)\<rparr>"


text \<open>
  An assignment that charges the battery from the grid and discharges it to the grid in
  the same hour (the first of year 1), by the same amount; everything else is \<open>0\<close>.
\<close>

definition simultaneous :: "real \<Rightarrow> assignment" where
  "simultaneous c = (\<lambda>v. 0)(grid_to_battery 0 1 := c, battery_to_grid 0 1 := c)"

section \<open>Properties of the arithmetic of doubles\<close>















section \<open>Properties of ResultsDisplay.jsx\<close>

lemmas double_simps =
  to_double_def ulp_exponent_def floor_log2_def pow2_def round_ties_even_def bit_length.simps

lemmas toFixed_simps = fixed_digits_def decimal.simps Let_def

lemma digit_char: "k < 10 \<Longrightarrow> is_digit (''0123456789'' ! k)"
  unfolding is_digit_def by (rule nth_mem) simp

lemma decimal_digits: "list_all is_digit (decimal n) \<and> decimal n \<noteq> []"
proof (induction n rule: decimal.induct)
  case (1 n)
  show ?case
  proof (cases "n < 10")
    case True
    then show ?thesis
      by (subst (1 2) decimal.simps) (simp add: digit_char)
  next
    case False
    with 1 have "list_all is_digit (decimal (n div 10))"
      by simp
    moreover have "is_digit (''0123456789'' ! (n mod 10))"
      by (rule digit_char) simp
    ultimately show ?thesis
      using False by (subst (1 2) decimal.simps) simp
  qed
qed

lemma fixed_digits_two_decimals:
  "\<exists>whole d1 d2. fixed_digits x 2 = whole @ ''.'' @ [d1, d2] \<and> whole \<noteq> []
      \<and> list_all is_digit whole \<and> is_digit d1 \<and> is_digit d2"
proof -
  define m where "m = decimal (nat \<lfloor>x * 10 ^ 2 + 1 / 2\<rfloor>)"
  define padded where "padded = replicate (Suc 2 - length m) CHR ''0'' @ m"
  have z: "is_digit CHR ''0''"
    by (simp add: is_digit_def)
  from decimal_digits [of "nat \<lfloor>x * 10 ^ 2 + 1 / 2\<rfloor>"] have dm: "list_all is_digit m"
    by (simp add: m_def)
  with z have dp: "list_all is_digit padded"
    by (auto simp: padded_def list_all_iff)
  have len: "3 \<le> length padded"
    by (simp add: padded_def)
  define whole where "whole = take (length padded - 2) padded"
  define frac where "frac = drop (length padded - 2) padded"
  from len have "length frac = 2"
    by (simp add: frac_def)
  then obtain d1 d2 where f: "frac = [d1, d2]"
    by (metis One_nat_def Suc_1 length_0_conv length_Suc_conv)
  from len have w: "whole \<noteq> []"
    by (auto simp: whole_def)
  have "padded = whole @ frac"
    by (simp add: whole_def frac_def)
  with dp f have "list_all is_digit whole" "is_digit d1" "is_digit d2"
    by simp_all
  moreover have "fixed_digits x 2 = whole @ ''.'' @ frac"
    by (simp add: fixed_digits_def Let_def m_def padded_def whole_def frac_def)
  ultimately show ?thesis
    using f w by blast
qed

lemma formatPercent_number:
  "formatPercent (JNum n) =
     (if n = NaN \<or> n = Fin 0 then [Lit ''N/A''] else [toFixed (js_times n (Fin 100)) 2, Lit ''%''])"
  by (cases n) (simp_all add: formatPercent_def isNaN_def)

text \<open>
  An IRR of \<open>2^1020\<close> is finite and not zero. Its product with \<open>100\<close> overflows to
  \<open>Infinity\<close>, and the card shows \<open>Infinity%\<close>, which has no decimals.
\<close>

theorem formatPercent_overflow_counterexample:
  "js_times (Fin (2 ^ 1020)) (Fin 100) = PosInf
   \<and> formatPercent (JNum (Fin (2 ^ 1020))) = [Lit ''Infinity'', Lit ''%'']"
  by (simp add: formatPercent_def isNaN_def to_double_def)

text \<open>
  Claim C9, as amended. For an IRR value (a number, \<open>null\<close> or \<open>undefined\<close>), \<open>formatPercent\<close>
  returns \<open>'N/A'\<close> exactly when the value is \<open>null\<close>, \<open>undefined\<close>, \<open>NaN\<close> or \<open>0\<close>. An IRR of
  exactly \<open>0\<close> is therefore shown as \<open>'N/A'\<close>, the same string as for an undefined IRR.
  Every non-zero finite IRR \<open>x\<close> is shown as \<open>(x * 100).toFixed(2)\<close> followed by \<open>%\<close>, the
  product being the double product; when that product is finite and below \<open>10^21\<close> in
  magnitude, this is a sign, at least one digit, a point and exactly two digits.
\<close>

theorem formatPercent_na_iff:
  assumes "v \<in> {JUndefined, JNull} \<union> range JNum"
  shows "(formatPercent v = [Lit ''N/A''] \<longleftrightarrow> v \<in> {JNull, JUndefined, JNum NaN, JNum (Fin 0)})
       \<and> formatPercent (JNum (Fin 0)) = formatPercent JNull
       \<and> (\<forall>x. x \<noteq> 0 \<longrightarrow>
            formatPercent (JNum (Fin x)) = [toFixed (js_times (Fin x) (Fin 100)) 2, Lit ''%''])
       \<and> (\<forall>x p. x \<noteq> 0 \<and> js_times (Fin x) (Fin 100) = Fin p \<and> \<bar>p\<bar> < 10 ^ 21 \<longrightarrow>
            (\<exists>whole d1 d2.
               formatPercent (JNum (Fin x))
                 = [Lit ((if p < 0 then ''-'' else []) @ whole @ ''.'' @ [d1, d2]), Lit ''%'']
               \<and> whole \<noteq> [] \<and> list_all is_digit whole \<and> is_digit d1 \<and> is_digit d2))"
proof -
  from assms consider "v = JUndefined" | "v = JNull" | n where "v = JNum n"
    by auto
  then have "formatPercent v = [Lit ''N/A''] \<longleftrightarrow> v \<in> {JNull, JUndefined, JNum NaN, JNum (Fin 0)}"
  proof cases
    case 1
    then show ?thesis by (simp add: formatPercent_def)
  next
    case 2
    then show ?thesis by (simp add: formatPercent_def)
  next
    case 3
    then show ?thesis by (simp add: formatPercent_number)
  qed
  moreover have "formatPercent (JNum (Fin 0)) = formatPercent JNull"
    by (simp add: formatPercent_def)
  moreover have shape: "formatPercent (JNum (Fin x)) = [toFixed (js_times (Fin x) (Fin 100)) 2, Lit ''%'']"
    if "x \<noteq> 0" for x
    using that by (simp add: formatPercent_number)
  moreover have "\<exists>whole d1 d2.
               formatPercent (JNum (Fin x))
                 = [Lit ((if p < 0 then ''-'' else []) @ whole @ ''.'' @ [d1, d2]), Lit ''%'']
               \<and> whole \<noteq> [] \<and> list_all is_digit whole \<and> is_digit d1 \<and> is_digit d2"
    if "x \<noteq> 0" "js_times (Fin x) (Fin 100) = Fin p" "\<bar>p\<bar> < 10 ^ 21" for x p
  proof -
    from fixed_digits_two_decimals [of "\<bar>p\<bar>"] obtain whole d1 d2 where
      "fixed_digits \<bar>p\<bar> 2 = whole @ ''.'' @ [d1, d2]" "whole \<noteq> []" "list_all is_digit whole"
      "is_digit d1" "is_digit d2"
      by blast
    with that show ?thesis
      by (auto simp: shape)
  qed
  ultimately show ?thesis by blast
qed

text \<open>
  The IRR \<open>0.125\<close> is shown as \<open>12.50%\<close>. The double nearest to \<open>0.00065\<close> lies below it;
  its product with \<open>100\<close> is rounded up to the double nearest to \<open>0.065\<close>, which lies above
  \<open>0.065\<close>, and is shown as \<open>0.07%\<close>.
\<close>

theorem formatPercent_na_iff_witness:
  "formatPercent (JNum (Fin 0)) = [Lit ''N/A'']
   \<and> formatPercent (JNum (Fin 0)) = formatPercent JNull
   \<and> js_times (Fin (1 / 8)) (Fin 100) = Fin (25 / 2)
   \<and> formatPercent (JNum (Fin (1 / 8))) = [Lit ''12.50'', Lit ''%'']
   \<and> js_times (Fin (1498797955988901 / 2 ^ 61)) (Fin 100) = Fin (1170935903116329 / 2 ^ 54)
   \<and> formatPercent (JNum (Fin (1498797955988901 / 2 ^ 61))) = [Lit ''0.07'', Lit ''%'']
   \<and> (\<exists>whole d1 d2.
         formatPercent (JNum (Fin (1 / 8))) = [Lit (whole @ ''.'' @ [d1, d2]), Lit ''%'']
         \<and> whole \<noteq> [] \<and> list_all is_digit whole \<and> is_digit d1 \<and> is_digit d2)"
proof -
  have v: "JNum (Fin 0) \<in> {JUndefined, JNull} \<union> range JNum"
    by simp
  have r: "to_double (25 / 2) = Fin (25 / 2)"
    by (simp add: double_simps)
  then have p: "js_times (Fin (1 / 8)) (Fin 100) = Fin (25 / 2)"
    by simp
  have t: "fixed_digits (25 / 2) 2 = ''12.50''"
    by (simp add: toFixed_simps)
  note all = formatPercent_na_iff [OF v]
  from all have a: "formatPercent (JNum (Fin 0)) = [Lit ''N/A'']"
    by simp
  from all have b: "formatPercent (JNum (Fin 0)) = formatPercent JNull"
    and c: "\<forall>x. x \<noteq> 0 \<longrightarrow>
            formatPercent (JNum (Fin x)) = [toFixed (js_times (Fin x) (Fin 100)) 2, Lit ''%'']"
    and d: "\<forall>x p. x \<noteq> 0 \<and> js_times (Fin x) (Fin 100) = Fin p \<and> \<bar>p\<bar> < 10 ^ 21 \<longrightarrow>
            (\<exists>whole d1 d2.
               formatPercent (JNum (Fin x))
                 = [Lit ((if p < 0 then ''-'' else []) @ whole @ ''.'' @ [d1, d2]), Lit ''%'']
               \<and> whole \<noteq> [] \<and> list_all is_digit whole \<and> is_digit d1 \<and> is_digit d2)"
    by blast+
  have r': "to_double (1498797955988901 / 2 ^ 61 * 100) = Fin (1170935903116329 / 2 ^ 54)"
    by (simp add: double_simps)
  then have p': "js_times (Fin (1498797955988901 / 2 ^ 61)) (Fin 100) = Fin (1170935903116329 / 2 ^ 54)"
    by simp
  have t': "fixed_digits (1170935903116329 / 2 ^ 54) 2 = ''0.07''"
    by (simp add: toFixed_simps)
  from c have "formatPercent (JNum (Fin (1498797955988901 / 2 ^ 61))) = [Lit ''0.07'', Lit ''%'']"
    using r' t' by simp
  moreover from c have "formatPercent (JNum (Fin (1 / 8))) = [Lit ''12.50'', Lit ''%'']"
    by (simp add: r t)
  moreover from d [rule_format, of "1 / 8" "25 / 2"] p
  have "\<exists>whole d1 d2.
         formatPercent (JNum (Fin (1 / 8))) = [Lit (whole @ ''.'' @ [d1, d2]), Lit ''%'']
         \<and> whole \<noteq> [] \<and> list_all is_digit whole \<and> is_digit d1 \<and> is_digit d2"
    by simp
  ultimately show ?thesis
    using a b p p' by simp
qed

text \<open>
  The rendering of the payload that carries the specification's field names: the card
  "Total Revenue (25 Years)" formats \<open>undefined\<close>, not the value stored under
  \<open>total_revenue_over_horizon\<close>.
\<close>

theorem ResultsDisplay_total_revenue_over_horizon_counterexample:
  "ResultsDisplay (Some spec_payload) =
     Inr (Results
       \<lparr>pv_size_text = [Lit ''75.50'', Lit '' MW''],
        bess_size_text = [Lit ''150.00'', Lit '' MWh''],
        capex_text = [CurrencyFormat (JNum (Fin 107500000))],
        npv_text = [CurrencyFormat (JNum (Fin 2500000))],
        irr_text = [Lit ''12.50'', Lit ''%''],
        total_revenue_text = [CurrencyFormat JUndefined],
        chart_section =
          Element (LineChart
            [\<lparr>point_year = [Lit ''Year '', NumberToString (Fin 1)],
              point_revenue = Fin 125000,
              revenueFormatted = [CurrencyFormat (JNum (Fin 125000))]\<rparr>]),
        info_section = Value JUndefined\<rparr>)
   \<and> formatCurrency (get_prop spec_payload ''total_revenue_over_horizon'')
       = [CurrencyFormat (JNum (Fin 150000000))]"
  by (simp add: ResultsDisplay_def spec_payload_def get_prop_def render_chart_section_def
      render_info_section_def MonthlyRevenueChart_def formatCurrency_def formatPercent_def
      isNaN_def group_by_year_def add_entry_def ensure_year_def add_revenue_def
      object_values_def is_array_index_def to_point_def double_simps toFixed_simps)

text \<open>
  Claim C1, as amended. The component reads nine properties of the result payload:
  \<open>optimal_pv_size_mw\<close>, \<open>optimal_bess_size_mwh\<close>, \<open>capex_total\<close>, \<open>npv\<close>, \<open>irr\<close>,
  \<open>total_revenue_25_years\<close>, \<open>monthly_revenues\<close> and, optionally,
  \<open>representative_days_used\<close> and \<open>scale_factor\<close>. Two payloads that agree on these are
  rendered alike, and the total-revenue card shows the property named
  \<open>total_revenue_25_years\<close>.
\<close>

theorem ResultsDisplay_consumed_fields:
  assumes "\<forall>name \<in> set ResultsDisplay_props. r name = r' name"
  shows "ResultsDisplay (Some r) = ResultsDisplay (Some r')
       \<and> (\<forall>v. ResultsDisplay (Some r) = Inr (Results v) \<longrightarrow>
              total_revenue_text v = formatCurrency (get_prop r ''total_revenue_25_years''))"
proof -
  from assms have "get_prop r name = get_prop r' name" if "name \<in> set ResultsDisplay_props" for name
    using that by (simp add: get_prop_def)
  then have
    "get_prop r ''optimal_pv_size_mw'' = get_prop r' ''optimal_pv_size_mw''"
    "get_prop r ''optimal_bess_size_mwh'' = get_prop r' ''optimal_bess_size_mwh''"
    "get_prop r ''capex_total'' = get_prop r' ''capex_total''"
    "get_prop r ''npv'' = get_prop r' ''npv''"
    "get_prop r ''irr'' = get_prop r' ''irr''"
    "get_prop r ''total_revenue_25_years'' = get_prop r' ''total_revenue_25_years''"
    "get_prop r ''monthly_revenues'' = get_prop r' ''monthly_revenues''"
    "get_prop r ''representative_days_used'' = get_prop r' ''representative_days_used''"
    "get_prop r ''scale_factor'' = get_prop r' ''scale_factor''"
    by (simp_all add: ResultsDisplay_props_def)
  then have same: "ResultsDisplay (Some r) = ResultsDisplay (Some r')"
    by (simp add: ResultsDisplay_def cong: sum.case_cong)
  have "total_revenue_text v = formatCurrency (get_prop r ''total_revenue_25_years'')"
    if "ResultsDisplay (Some r) = Inr (Results v)" for v
    using that by (auto simp: ResultsDisplay_def split: sum.splits)
  with same show ?thesis by blast
qed

theorem ResultsDisplay_consumed_fields_witness:
  "ResultsDisplay (Some (spec_payload(''total_revenue_25_years'' \<mapsto> JNum (Fin 150000000))))
     = ResultsDisplay (Some (spec_payload(''total_revenue_25_years'' \<mapsto> JNum (Fin 150000000),
                                          ''total_revenue_over_horizon'' \<mapsto> JNum (Fin 1))))
   \<and> (case ResultsDisplay (Some (spec_payload(''total_revenue_25_years'' \<mapsto> JNum (Fin 150000000)))) of
        Inr (Results v) \<Rightarrow> total_revenue_text v = [CurrencyFormat (JNum (Fin 150000000))]
      | Inr NoResults \<Rightarrow> False
      | Inl e \<Rightarrow> False)"
proof -
  let ?r = "spec_payload(''total_revenue_25_years'' \<mapsto> JNum (Fin 150000000))"
  have "\<forall>name \<in> set ResultsDisplay_props.
          ?r name = (?r(''total_revenue_over_horizon'' \<mapsto> JNum (Fin 1))) name"
    by (simp add: ResultsDisplay_props_def)
  from ResultsDisplay_consumed_fields [OF this]
  have same: "ResultsDisplay (Some ?r)
        = ResultsDisplay (Some (?r(''total_revenue_over_horizon'' \<mapsto> JNum (Fin 1))))"
    and shown: "\<forall>v. ResultsDisplay (Some ?r) = Inr (Results v) \<longrightarrow>
        total_revenue_text v = formatCurrency (get_prop ?r ''total_revenue_25_years'')"
    by blast+
  have "\<exists>v. ResultsDisplay (Some ?r) = Inr (Results v)"
    by (simp add: ResultsDisplay_def spec_payload_def get_prop_def render_chart_section_def
        render_info_section_def MonthlyRevenueChart_def)
  then obtain v where v: "ResultsDisplay (Some ?r) = Inr (Results v)"
    by blast
  with shown have "total_revenue_text v = [CurrencyFormat (JNum (Fin 150000000))]"
    by (simp add: formatCurrency_def get_prop_def)
  with v same show ?thesis
    by simp
qed
section \<open>Properties of MonthlyRevenueChart.jsx\<close>




















section \<open>Properties of validateForm\<close>

lemmas parseFloat_simps =
  parseFloat_def parse_unsigned_def is_whitespace_def digit_of_def digits_value_def pow10_def
  exponent_part_def ascii_def

lemma positive_iff: "(n \<noteq> NaN \<and> \<not> js_less_eq n (Fin 0)) = js_less (Fin 0) n"
  by (cases n) auto

lemma js_less_asym: "js_less (Fin 0) n \<Longrightarrow> \<not> js_less n (Fin 0)"
  by (cases n) auto

lemma dom_if_upd: "((if c then m(k \<mapsto> v) else m) = Map.empty) = (\<not> c \<and> m = Map.empty)"
  by simp

lemma dom_check_required:
  "(check_required fd e field = Map.empty) =
     (e = Map.empty \<and> (\<exists>v. formData_get fd field = Some v \<and> v \<noteq> [] \<and> js_trim v \<noteq> []
                        \<and> js_less (Fin 0) (parseFloat v)))"
  by (cases "formData_get fd field") (auto simp: check_required_def positive_iff [symmetric])

lemma dom_foldl_check_required:
  "(foldl (check_required fd) e names = Map.empty) =
     (e = Map.empty \<and> (\<forall>field \<in> set names. \<exists>v. formData_get fd field = Some v \<and> v \<noteq> []
                        \<and> js_trim v \<noteq> [] \<and> js_less (Fin 0) (parseFloat v)))"
  by (induction names arbitrary: e) (auto simp: dom_check_required)

lemma dom_check_optional:
  "(check_optional v e field = Map.empty) = (e = Map.empty \<and> (v = [] \<or> js_less (Fin 0) (parseFloat v)))"
  by (auto simp: check_optional_def positive_iff [symmetric])

lemma check_required_lookup:
  "check_required fd e field k =
     (if k = field then (case required_error fd field of None \<Rightarrow> e k | Some m \<Rightarrow> Some m) else e k)"
  by (simp add: check_required_def required_error_def split: option.splits)

lemma foldl_check_required_lookup:
  "foldl (check_required fd) e names k =
     (if k \<in> set names then (case required_error fd k of None \<Rightarrow> e k | Some m \<Rightarrow> Some m) else e k)"
  by (induction names arbitrary: e) (auto simp: check_required_lookup split: option.splits)

lemma check_optional_lookup:
  "k \<noteq> field \<Longrightarrow> check_optional v e field k = e k"
  by (simp add: check_optional_def)

lemma required_not_other:
  "field \<in> set requiredFields \<Longrightarrow>
     field \<noteq> ''pvProduction'' \<and> field \<noteq> ''pricing'' \<and> field \<noteq> ''pvMaxSizeMw''
     \<and> field \<noteq> ''bessMaxSizeMwh''"
  by (auto simp: requiredFields_def)

lemma js_less_imp_less_eq: "js_less a b \<Longrightarrow> js_less_eq a b"
  by (cases a; cases b) simp_all

lemma validation_errors_required:
  assumes "field \<in> set requiredFields"
  shows "validation_errors fs fd field =
     (if field = ''discountRate'' \<and> discountRate fd \<noteq> []
          \<and> (js_less (parseFloat (discountRate fd)) (Fin 0)
               \<or> js_less (Fin 1) (parseFloat (discountRate fd)))
      then Some ''Discount rate must be between 0 and 1 (e.g., 0.08 for 8%)''
      else required_error fd field)"
proof -
  from required_not_other [OF assms]
  have n: "field \<noteq> ''pvProduction''" "field \<noteq> ''pricing''" "field \<noteq> ''pvMaxSizeMw''"
    "field \<noteq> ''bessMaxSizeMwh''"
    by simp_all
  define e2 :: errors where "e2 =
    (if pricing fs = None
     then (if pvProduction fs = None
           then Map.empty(''pvProduction'' \<mapsto> ''PV production CSV file is required'')
           else Map.empty)(''pricing'' \<mapsto> ''Pricing CSV file is required'')
     else (if pvProduction fs = None
           then Map.empty(''pvProduction'' \<mapsto> ''PV production CSV file is required'')
           else Map.empty))"
  have e2: "e2 field = None"
    using n by (simp add: e2_def)
  have e3: "foldl (check_required fd) e2 requiredFields field = required_error fd field"
    using assms by (simp add: foldl_check_required_lookup e2 split: option.splits)
  show ?thesis
    unfolding validation_errors_def Let_def e2_def [symmetric]
    using n e3 by (auto simp: check_optional_lookup)
qed

lemma js_trim_nonempty: "js_trim v \<noteq> [] \<Longrightarrow> v \<noteq> []"
  by (auto simp: js_trim_def)

text \<open>
  The texts used below, parsed: \<open>1e-324\<close> is nearer to \<open>0\<close> than to the smallest positive
  double, and \<open>1.00000000000000001\<close> is nearer to \<open>1\<close> than to the next double above it.
\<close>

lemma parseFloat_underflow: "parseFloat (ascii ''1e-324'') = Fin 0"
  by (simp add: parseFloat_simps double_simps)

lemma parseFloat_rounds_to_one: "parseFloat (ascii ''1.00000000000000001'') = Fin 1"
  by (simp add: parseFloat_simps double_simps)

lemma plan_form_parsed:
  "parseFloat (ascii ''1000000'') = Fin 1000000"
  "parseFloat (ascii ''300000'') = Fin 300000"
  "parseFloat (ascii ''0.08'') = Fin (5764607523034235 / 2 ^ 56)"
  "parseFloat (ascii ''100'') = Fin 100"
  "parseFloat (ascii ''50'') = Fin 50"
  "parseFloat (ascii ''20'') = Fin 20"
  "parseFloat (ascii ''0.02'') = Fin (5764607523034235 / 2 ^ 58)"
  "parseFloat (ascii ''0'') = Fin 0"
  "parseFloat (ascii ''1'') = Fin 1"
  "parseFloat (ascii ''1.0'') = Fin 1"
  "parseFloat (ascii ''1.01'') = Fin (4548635623644201 / 2 ^ 52)"
  "parseFloat (ascii ''NaN'') = NaN"
  by (simp_all add: parseFloat_simps double_simps)

lemma ascii_nonempty:
  "ascii (c # cs) \<noteq> []" "js_trim (ascii ''1e-324'') \<noteq> []"
  "js_trim (ascii ''1.00000000000000001'') \<noteq> []"
  "js_trim (ascii ''1000000'') \<noteq> []" "js_trim (ascii ''300000'') \<noteq> []"
  "js_trim (ascii ''0.08'') \<noteq> []" "js_trim (ascii ''100'') \<noteq> []" "js_trim (ascii ''50'') \<noteq> []"
  "js_trim (ascii ''20'') \<noteq> []" "js_trim (ascii ''0.02'') \<noteq> []" "js_trim (ascii ''0'') \<noteq> []"
  "js_trim (ascii ''1'') \<noteq> []" "js_trim (ascii ''1.0'') \<noteq> []" "js_trim (ascii ''1.01'') \<noteq> []"
  "js_trim (ascii ''NaN'') \<noteq> []"
  by (simp_all add: ascii_def js_trim_def is_whitespace_def)

lemmas form_simps =
  requiredFields_def formData_get_def chosen_files_def plan_form_def scenario_A_form_def
  plan_form_parsed parseFloat_underflow parseFloat_rounds_to_one ascii_nonempty

text \<open>A form whose discount rate is exactly \<open>1\<close> passes the validation.\<close>

theorem validateForm_discount_rate_one_counterexample:
  "parseFloat (ascii ''1'') = Fin 1
   \<and> validateForm chosen_files (plan_form\<lparr>discountRate := ascii ''1''\<rparr>)"
  by (simp add: validateForm_def validation_errors_def check_required_def check_optional_def
      form_simps)

text \<open>
  Claim C5, as amended. The form's validation succeeds exactly when both files are
  chosen, every required parameter is present and parses to a strictly positive number,
  the discount rate is not above \<open>1\<close>, and each optional ceiling is empty or strictly
  positive. It therefore fails whenever a required parameter is blank, not a number, zero
  or negative, and whenever the discount rate exceeds \<open>1\<close>; a discount rate of exactly \<open>1\<close>
  is accepted. The numbers compared are the doubles \<open>parseFloat\<close> returns.
\<close>

theorem validateForm_iff:
  "validateForm fs fd \<longleftrightarrow>
     pvProduction fs \<noteq> None \<and> pricing fs \<noteq> None
     \<and> (\<forall>field \<in> set requiredFields. \<exists>v. formData_get fd field = Some v \<and> v \<noteq> []
            \<and> js_trim v \<noteq> [] \<and> js_less (Fin 0) (parseFloat v))
     \<and> \<not> js_less (Fin 1) (parseFloat (discountRate fd))
     \<and> (pvMaxSizeMw fd = [] \<or> js_less (Fin 0) (parseFloat (pvMaxSizeMw fd)))
     \<and> (bessMaxSizeMwh fd = [] \<or> js_less (Fin 0) (parseFloat (bessMaxSizeMwh fd)))"
proof -
  let ?req = "\<forall>field \<in> set requiredFields. \<exists>v. formData_get fd field = Some v \<and> v \<noteq> []
            \<and> js_trim v \<noteq> [] \<and> js_less (Fin 0) (parseFloat v)"
  have d: "discountRate fd \<noteq> [] \<and> \<not> js_less (parseFloat (discountRate fd)) (Fin 0)" if ?req
  proof -
    have "''discountRate'' \<in> set requiredFields"
      by (simp add: requiredFields_def)
    with that obtain v where "formData_get fd ''discountRate'' = Some v" "v \<noteq> []"
      "js_less (Fin 0) (parseFloat v)"
      by blast
    then show ?thesis
      by (simp add: formData_get_def js_less_asym)
  qed
  have "validateForm fs fd \<longleftrightarrow>
     pvProduction fs \<noteq> None \<and> pricing fs \<noteq> None \<and> ?req
     \<and> \<not> (discountRate fd \<noteq> [] \<and> (js_less (parseFloat (discountRate fd)) (Fin 0)
                        \<or> js_less (Fin 1) (parseFloat (discountRate fd))))
     \<and> (pvMaxSizeMw fd = [] \<or> js_less (Fin 0) (parseFloat (pvMaxSizeMw fd)))
     \<and> (bessMaxSizeMwh fd = [] \<or> js_less (Fin 0) (parseFloat (bessMaxSizeMwh fd)))"
    unfolding validateForm_def validation_errors_def Let_def dom_eq_empty_conv
      dom_check_optional dom_if_upd dom_foldl_check_required
    by auto
  with d show ?thesis
    by blast
qed

theorem validateForm_iff_witness:
  "validateForm chosen_files (plan_form\<lparr>discountRate := ascii ''1.0''\<rparr>)
   \<and> validateForm chosen_files (plan_form\<lparr>discountRate := ascii ''1.00000000000000001''\<rparr>)
   \<and> \<not> validateForm chosen_files (plan_form\<lparr>discountRate := ascii ''1.01''\<rparr>)
   \<and> \<not> validateForm chosen_files (plan_form\<lparr>discountRate := ascii ''NaN''\<rparr>)
   \<and> \<not> validateForm chosen_files (plan_form\<lparr>discountRate := []\<rparr>)"
  using validateForm_iff [of chosen_files "plan_form\<lparr>discountRate := ascii ''1.0''\<rparr>"]
    validateForm_iff [of chosen_files "plan_form\<lparr>discountRate := ascii ''1.00000000000000001''\<rparr>"]
    validateForm_iff [of chosen_files "plan_form\<lparr>discountRate := ascii ''1.01''\<rparr>"]
    validateForm_iff [of chosen_files "plan_form\<lparr>discountRate := ascii ''NaN''\<rparr>"]
    validateForm_iff [of chosen_files "plan_form\<lparr>discountRate := []\<rparr>"]
  by (simp add: form_simps)

text \<open>
  A form whose only fault is an escalation rate of \<open>0\<close> is rejected, and so is the form of
  Scenario A: each field that holds \<open>0\<close> gets the message "Must be a positive number".
\<close>

theorem validateForm_zero_counterexample:
  "\<not> validateForm chosen_files (plan_form\<lparr>yoyPriceEscalationRate := ascii ''0''\<rparr>)
   \<and> validation_errors chosen_files (plan_form\<lparr>yoyPriceEscalationRate := ascii ''0''\<rparr>)
       = [''yoyPriceEscalationRate'' \<mapsto> ''Must be a positive number'']
   \<and> \<not> validateForm chosen_files scenario_A_form
   \<and> validation_errors chosen_files scenario_A_form
       = [''pvCapexPerMw'' \<mapsto> ''Must be a positive number'',
          ''bessCapexPerMwh'' \<mapsto> ''Must be a positive number'',
          ''onsiteLoadMaxMw'' \<mapsto> ''Must be a positive number'',
          ''yoyPriceEscalationRate'' \<mapsto> ''Must be a positive number'']"
  by (simp add: validateForm_def validation_errors_def check_required_def check_optional_def
      form_simps)

text \<open>
  Claim C4, as amended. A required parameter passes the form's validation exactly when
  its text is not blank and parses to a number that is strictly positive (and, for the
  discount rate, not above \<open>1\<close>). A parameter equal to \<open>0\<close>, or one so small that it parses
  to \<open>0\<close>, is rejected with "Must be a positive number", and the form with it.
\<close>

theorem validateForm_required_positive:
  assumes "field \<in> set requiredFields" and "formData_get fd field = Some v"
  shows "(validation_errors fs fd field = None \<longleftrightarrow>
            v \<noteq> [] \<and> js_trim v \<noteq> [] \<and> js_less (Fin 0) (parseFloat v)
            \<and> (field = ''discountRate'' \<longrightarrow> \<not> js_less (Fin 1) (parseFloat v)))
       \<and> (js_trim v \<noteq> [] \<and> parseFloat v = Fin 0 \<longrightarrow>
            validation_errors fs fd field = Some ''Must be a positive number''
            \<and> \<not> validateForm fs fd)"
proof -
  have dv: "v = discountRate fd" if "field = ''discountRate''"
    using that assms(2) by (simp add: formData_get_def)
  have 1: "validation_errors fs fd field = None \<longleftrightarrow>
            v \<noteq> [] \<and> js_trim v \<noteq> [] \<and> js_less (Fin 0) (parseFloat v)
            \<and> (field = ''discountRate'' \<longrightarrow> \<not> js_less (Fin 1) (parseFloat v))"
    using assms(2) dv
    by (auto simp: validation_errors_required [OF assms(1)] required_error_def
        positive_iff [symmetric] dest: js_less_asym js_less_imp_less_eq)
  have 2: "validation_errors fs fd field = Some ''Must be a positive number''"
    if "js_trim v \<noteq> []" "parseFloat v = Fin 0"
    using that assms(2) dv js_trim_nonempty [OF that(1)]
    by (auto simp: validation_errors_required [OF assms(1)] required_error_def)
  have "\<not> validateForm fs fd" if "js_trim v \<noteq> []" "parseFloat v = Fin 0"
    using 2 [OF that] by (auto simp: validateForm_def)
  with 1 2 show ?thesis
    by blast
qed

theorem validateForm_required_positive_witness:
  "validation_errors chosen_files (plan_form\<lparr>onsiteLoadMaxMw := ascii ''0''\<rparr>) ''onsiteLoadMaxMw''
     = Some ''Must be a positive number''
   \<and> \<not> validateForm chosen_files (plan_form\<lparr>onsiteLoadMaxMw := ascii ''0''\<rparr>)
   \<and> validation_errors chosen_files (plan_form\<lparr>onsiteLoadMaxMw := ascii ''1e-324''\<rparr>)
       ''onsiteLoadMaxMw''
     = Some ''Must be a positive number''
   \<and> \<not> validateForm chosen_files (plan_form\<lparr>onsiteLoadMaxMw := ascii ''1e-324''\<rparr>)
   \<and> validation_errors chosen_files plan_form ''onsiteLoadMaxMw'' = None"
proof -
  have r: "''onsiteLoadMaxMw'' \<in> set requiredFields"
    by (simp add: requiredFields_def)
  have g0: "formData_get (plan_form\<lparr>onsiteLoadMaxMw := ascii ''0''\<rparr>) ''onsiteLoadMaxMw''
      = Some (ascii ''0'')"
    by (simp add: formData_get_def)
  have g1: "formData_get (plan_form\<lparr>onsiteLoadMaxMw := ascii ''1e-324''\<rparr>) ''onsiteLoadMaxMw''
      = Some (ascii ''1e-324'')"
    by (simp add: formData_get_def)
  have g2: "formData_get plan_form ''onsiteLoadMaxMw'' = Some (ascii ''20'')"
    by (simp add: formData_get_def plan_form_def)
  from validateForm_required_positive [OF r g0, of chosen_files]
    validateForm_required_positive [OF r g1, of chosen_files]
    validateForm_required_positive [OF r g2, of chosen_files]
  show ?thesis
    by (simp add: form_simps)
qed

section \<open>Properties of the polling\<close>























section \<open>Properties of the engine as specified\<close>

lemma linexp_value_append: "linexp_value a (e1 @ e2) = linexp_value a e1 + linexp_value a e2"
  by (simp add: linexp_value_def)

lemma linexp_value_concat: "linexp_value a (concat es) = sum_list (map (linexp_value a) es)"
  by (induction es) (simp_all add: linexp_value_append, simp add: linexp_value_def)

lemma linexp_value_scale: "linexp_value a (scale k e) = k * linexp_value a e"
  by (induction e) (auto simp: linexp_value_def scale_def algebra_simps)

lemma linexp_value_hour_net: "linexp_value a (hour_net_terms sc y h hr) = hour_net sc a y h hr"
  by (cases hr) (simp add: linexp_value_def hour_net_terms_def hour_net_def algebra_simps)

lemma linexp_value_year:
  "linexp_value a (concat (map (\<lambda>(h, hr). hour_net_terms sc y h hr) (enumerate 0 (rep_hours days))))
     = year_cash_flow sc days a y"
  by (simp add: linexp_value_concat year_cash_flow_def comp_def case_prod_unfold linexp_value_hour_net)

lemma objective_value:
  "linexp_value a (objective_terms sc (rep_hours days))
     = sum_list (map (\<lambda>y. objective_discount sc y * year_cash_flow sc days a y) (years sc))
       - capex sc a"
proof -
  have "linexp_value a [(- pv_capex_per_mw sc, pv_size_mw), (- bess_capex_per_mwh sc, bess_size_mwh)]
      = - capex sc a"
    by (simp add: linexp_value_def capex_def)
  moreover have "map (linexp_value a)
      (map (\<lambda>y. scale (objective_discount sc y)
                   (concat (map (\<lambda>(h, hr). hour_net_terms sc y h hr) (enumerate 0 (rep_hours days)))))
           (years sc))
      = map (\<lambda>y. objective_discount sc y * year_cash_flow sc days a y) (years sc)"
    by (simp only: map_map comp_def linexp_value_scale linexp_value_year)
  ultimately show ?thesis
    by (simp only: objective_terms_def linexp_value_append linexp_value_concat)
qed


lemma build_valid: "build sc days md M = Inr m \<Longrightarrow> valid_scenario sc"
  by (auto simp: build_def split: if_splits)

lemma enumerate_map_upt: "enumerate n (map f [n..<m]) = map (\<lambda>y. (y, f y)) [n..<m]"
  by (cases "n \<le> m") (simp_all add: enumerate_eq_zip zip_map2 zip_same_conv_map)

lemma enumerate_years:
  "enumerate (Suc 0) (map f (years sc)) = map (\<lambda>y. (y, f y)) (years sc)"
  unfolding years_def One_nat_def by (rule enumerate_map_upt)

lemma NPV_cashFlows:
  "NPV (cashFlows sc days a) r
     = - capex sc a + sum_list (map (\<lambda>y. year_cash_flow sc days a y / (1 + r) ^ y) (years sc))"
  by (simp add: NPV_def cashFlows_def enumerate_years comp_def)

lemma discount_shift_aux:
  "(b::real) \<noteq> 0 \<Longrightarrow> q \<noteq> 0 \<Longrightarrow> 1 / q * c = b * (c / (b * q))"
  by (simp add: field_simps)

lemma discount_shift:
  assumes "1 + (r::real) \<noteq> 0" "1 \<le> y"
  shows "1 / (1 + r) ^ (y - 1) * c = (1 + r) * (c / (1 + r) ^ y)"
proof -
  from assms(2) obtain k where y: "y = Suc k"
    by (cases y) auto
  from assms(1) have "(1 + r) ^ k \<noteq> 0"
    by (rule power_not_zero)
  with assms(1) have "1 / (1 + r) ^ k * c = (1 + r) * (c / ((1 + r) * (1 + r) ^ k))"
    by (rule discount_shift_aux)
  with y show ?thesis
    by simp
qed

lemma years_positive: "y \<in> set (years sc) \<Longrightarrow> 1 \<le> y"
  by (auto simp: years_def)

lemma objective_NPV:
  assumes "1 + discount_rate sc \<noteq> 0"
  shows "linexp_value a (objective_terms sc (rep_hours days))
     = - capex sc a
       + (1 + discount_rate sc) * (NPV (cashFlows sc days a) (discount_rate sc) + capex sc a)"
proof -
  have "map (\<lambda>y. objective_discount sc y * year_cash_flow sc days a y) (years sc)
      = map (\<lambda>y. (1 + discount_rate sc) * (year_cash_flow sc days a y / (1 + discount_rate sc) ^ y))
            (years sc)"
  proof (rule map_cong [OF refl])
    fix y
    assume "y \<in> set (years sc)"
    then have "1 \<le> y"
      by (rule years_positive)
    with assms show "objective_discount sc y * year_cash_flow sc days a y
        = (1 + discount_rate sc) * (year_cash_flow sc days a y / (1 + discount_rate sc) ^ y)"
      unfolding objective_discount_def by (rule discount_shift)
  qed
  then have "sum_list (map (\<lambda>y. objective_discount sc y * year_cash_flow sc days a y) (years sc))
      = (1 + discount_rate sc)
        * sum_list (map (\<lambda>y. year_cash_flow sc days a y / (1 + discount_rate sc) ^ y) (years sc))"
    by (simp only: sum_list_const_mult)
  then show ?thesis
    by (simp add: objective_value NPV_cashFlows)
qed

lemma build_constraints:
  assumes "build sc days md M = Inr m"
  shows "list_all (holds a) (constraints m) \<longleftrightarrow>
     (\<forall>y \<in> set (years sc).
        list_all (holds a) (year_start_constraints (length (rep_hours days)) y)
        \<and> (\<forall>p \<in> set (enumerate 0 (rep_hours days)).
              list_all (holds a) (hour_constraints sc y (fst p) (snd p))
              \<and> list_all (holds a) (exclusivity_constraints md M y (fst p))))
     \<and> list_all (holds a) (ceiling_constraints sc)"
  using assms
  by (auto simp: build_def Let_def list_all_iff split: if_splits)



lemma seed_hours: "rep_hours [seed_day] = (365, 1, 110) # replicate 23 (365, 0, 0)"
  by (simp add: rep_hours_def seed_day_def)

lemma seed_years: "years seed_scenario = [1]"
  by (simp add: years_def seed_scenario_def)






lemma seed_build:
  "\<exists>m. build seed_scenario [seed_day] md M = Inr m"
  by (simp add: build_def valid_scenario_def seed_scenario_def Let_def)

lemma seed_length: "length (rep_hours [seed_day]) = 24"
  by (simp add: seed_hours)





text \<open>
  The objective and the NPV of the specification discount differently: the objective
  divides the net revenue of year \<open>y\<close> by \<open>(1 + discount_rate)^(y - 1)\<close>, the NPV by
  \<open>(1 + discount_rate)^y\<close>. For the cash flows of any assignment the two are related as
  lemma \<open>objective_NPV\<close> says, and they differ whenever the discount rate is positive and
  the discounted revenue is not \<open>0\<close>.
\<close>


lemma build_eq:
  assumes "build sc days md M = Inr m"
  shows "variables m =
      [(pv_size_mw, NonNegative), (bess_size_mwh, NonNegative)]
      @ concat (map (\<lambda>y. (soc 0 y, NonNegative)
                         # concat (map (hour_variables y) [0..<length (rep_hours days)]))
                    (years sc))
      @ mode_variables md (length (rep_hours days))"
    and "constraints m =
      concat (map (\<lambda>y. year_start_constraints (length (rep_hours days)) y
                        @ concat (map (\<lambda>(h, hr). hour_constraints sc y h hr
                                                   @ exclusivity_constraints md M y h)
                                      (enumerate 0 (rep_hours days))))
                  (years sc))
      @ ceiling_constraints sc"
  using assms by (auto simp: build_def Let_def split: if_splits)

lemma continuous_part:
  "p \<in> set ([(pv_size_mw, NonNegative), (bess_size_mwh, NonNegative)]
      @ concat (map (\<lambda>y. (soc 0 y, NonNegative) # concat (map (hour_variables y) [0..<H])) ys))
   \<Longrightarrow> snd p = NonNegative \<and> (\<forall>h. fst p \<noteq> battery_mode h)"
  by (auto simp: hour_variables_def)

lemma binary_variables:
  assumes "build sc days md M = Inr m"
  shows "filter (\<lambda>p. snd p = Binary) (variables m)
     = (case md of LP_RELAXED \<Rightarrow> []
        | MILP_STRICT \<Rightarrow> map (\<lambda>h. (battery_mode h, Binary)) [0..<length (rep_hours days)])"
proof -
  let ?cont = "[(pv_size_mw, NonNegative), (bess_size_mwh, NonNegative)]
       @ concat (map (\<lambda>y. (soc 0 y, NonNegative)
                          # concat (map (hour_variables y) [0..<length (rep_hours days)]))
                     (years sc))"
  have "\<not> snd p = Binary" if "p \<in> set ?cont" for p
    using continuous_part [OF that] by simp
  then have c: "filter (\<lambda>p. snd p = Binary) ?cont = []"
    unfolding filter_empty_conv by blast
  have b: "filter (\<lambda>p. snd p = Binary) (mode_variables md H)
      = (case md of LP_RELAXED \<Rightarrow> [] | MILP_STRICT \<Rightarrow> map (\<lambda>h. (battery_mode h, Binary)) [0..<H])" for H
    by (cases md) (simp_all add: mode_variables_def filter_map comp_def)
  have "variables m = ?cont @ mode_variables md (length (rep_hours days))"
    by (simp add: build_eq(1) [OF assms])
  then have "filter (\<lambda>p. snd p = Binary) (variables m)
      = filter (\<lambda>p. snd p = Binary) ?cont
        @ filter (\<lambda>p. snd p = Binary) (mode_variables md (length (rep_hours days)))"
    by (simp only: filter_append)
  then show ?thesis
    by (simp only: c b append_Nil)
qed

lemma relaxed_no_mode_variable:
  assumes "build sc days LP_RELAXED M = Inr m"
  shows "battery_mode h \<notin> fst ` set (variables m)"
proof
  assume "battery_mode h \<in> fst ` set (variables m)"
  then obtain p where "p \<in> set (variables m)" "fst p = battery_mode h"
    by auto
  then show False
    unfolding build_eq(1) [OF assms] using continuous_part [of p]
    by (simp add: mode_variables_def)
qed

lemma year_start_no_mode:
  "c \<in> set (year_start_constraints H y) \<Longrightarrow> battery_mode h \<notin> vars_of c"
  by (auto simp: year_start_constraints_def split: if_splits)

lemma hour_no_mode:
  "c \<in> set (hour_constraints sc y h' hr) \<Longrightarrow> battery_mode h \<notin> vars_of c"
  by (cases hr) (auto simp: hour_constraints_def)

lemma ceiling_no_mode:
  "c \<in> set (ceiling_constraints sc) \<Longrightarrow> battery_mode h \<notin> vars_of c"
  by (auto simp: ceiling_constraints_def split: option.splits)

lemma relaxed_no_mode_constraint:
  assumes "build sc days LP_RELAXED M = Inr m" and "c \<in> set (constraints m)"
  shows "battery_mode h \<notin> vars_of c"
proof -
  from assms(2) consider y where "c \<in> set (year_start_constraints (length (rep_hours days)) y)"
    | y h' hr where "c \<in> set (hour_constraints sc y h' hr)"
    | "c \<in> set (ceiling_constraints sc)"
    unfolding build_eq(2) [OF assms(1)]
    by (auto simp: exclusivity_constraints_def)
  then show ?thesis
    by cases (simp_all add: year_start_no_mode hour_no_mode ceiling_no_mode)
qed

lemma hour_in_enumerate:
  "h < length hrs \<Longrightarrow> (h, hrs ! h) \<in> set (enumerate 0 hrs)"
  by (simp add: in_set_enumerate_eq)

lemma hour_constraint_member:
  assumes "build sc days md M = Inr m" "h < length (rep_hours days)" "y \<in> set (years sc)"
    and "c \<in> set (hour_constraints sc y h (rep_hours days ! h) @ exclusivity_constraints md M y h)"
  shows "c \<in> set (constraints m)"
proof -
  let ?f = "\<lambda>(h, hr). hour_constraints sc y h hr @ exclusivity_constraints md M y h"
  from assms(4) have "c \<in> set (?f (h, rep_hours days ! h))"
    by simp
  with hour_in_enumerate [OF assms(2)]
  have "c \<in> set (concat (map ?f (enumerate 0 (rep_hours days))))"
    unfolding set_concat set_map by blast
  then have "c \<in> set (year_start_constraints (length (rep_hours days)) y
                       @ concat (map ?f (enumerate 0 (rep_hours days))))"
    by simp
  with assms(3) have "c \<in> set (concat (map (\<lambda>y. year_start_constraints (length (rep_hours days)) y
                       @ concat (map (\<lambda>(h, hr). hour_constraints sc y h hr
                                                   @ exclusivity_constraints md M y h)
                                      (enumerate 0 (rep_hours days)))) (years sc)))"
    unfolding set_concat set_map by blast
  then show ?thesis
    unfolding build_eq(2) [OF assms(1)] by simp
qed

lemma strict_has_constraints:
  assumes "build sc days MILP_STRICT M = Inr m" "h < length (rep_hours days)" "y \<in> set (years sc)"
  shows "charge_exclusive M y h \<in> set (constraints m)"
    and "discharge_exclusive M y h \<in> set (constraints m)"
  by (rule hour_constraint_member [OF assms]; simp add: exclusivity_constraints_def)+

lemma simultaneous_hour:
  assumes "0 < interconnection_capacity_mw sc" "0 \<le> onsite_load_max_mw sc"
  shows "list_all (holds (simultaneous (interconnection_capacity_mw sc))) (hour_constraints sc y h hr)"
  using assms by (cases hr) (simp add: hour_constraints_def linexp_value_def simultaneous_def)

lemma simultaneous_year_start:
  "list_all (holds (simultaneous c)) (year_start_constraints H y)"
  by (simp add: year_start_constraints_def linexp_value_def simultaneous_def)

lemma simultaneous_ceiling:
  "valid_scenario sc \<Longrightarrow> list_all (holds (simultaneous c)) (ceiling_constraints sc)"
  by (auto simp: ceiling_constraints_def valid_scenario_def linexp_value_def simultaneous_def
      split: option.splits)

lemma simultaneous_nonneg: "0 \<le> c \<Longrightarrow> 0 \<le> simultaneous c v"
  by (simp add: simultaneous_def)

lemma simultaneous_feasible:
  assumes b: "build sc days LP_RELAXED M = Inr m"
    and "0 < interconnection_capacity_mw sc" "0 \<le> onsite_load_max_mw sc"
  shows "feasible m (simultaneous (interconnection_capacity_mw sc))"
proof -
  let ?a = "simultaneous (interconnection_capacity_mw sc)"
  have "list_all (holds ?a) (constraints m)"
    unfolding build_constraints [OF b]
    using assms(2,3) build_valid [OF b]
    by (simp add: simultaneous_hour simultaneous_year_start simultaneous_ceiling
        exclusivity_constraints_def)
  moreover have "in_domain (snd p) (?a (fst p))" if "p \<in> set (variables m)" for p
  proof -
    from that have "snd p = NonNegative"
      unfolding build_eq(1) [OF b] using continuous_part [of p]
      by (simp add: mode_variables_def)
    with assms(2) show ?thesis
      by (simp add: simultaneous_nonneg)
  qed
  then have "list_all (\<lambda>(v, d). in_domain d (?a v)) (variables m)"
    by (auto simp: list_all_iff)
  ultimately show ?thesis
    by (simp add: feasible_def)
qed

lemma strict_exclusive:
  assumes b: "build sc days MILP_STRICT M = Inr m" and f: "feasible m a"
    and h: "h < length (rep_hours days)" and y: "y \<in> set (years sc)"
  shows "\<not> (0 < a (pv_to_battery h y) + a (grid_to_battery h y)
            \<and> 0 < a (battery_to_grid h y) + a (battery_to_onsite h y))"
proof -
  from f have c: "\<forall>c \<in> set (constraints m). holds a c"
    and v: "\<forall>p \<in> set (variables m). in_domain (snd p) (a (fst p))"
    by (auto simp: feasible_def list_all_iff)
  from c strict_has_constraints [OF b h y]
  have "holds a (charge_exclusive M y h)" "holds a (discharge_exclusive M y h)"
    by blast+
  then have 1: "a (pv_to_battery h y) + a (grid_to_battery h y) - M * a (battery_mode h) \<le> 0"
    and 2: "a (battery_to_grid h y) + a (battery_to_onsite h y) + M * a (battery_mode h) \<le> M"
    by (simp_all add: charge_exclusive_def discharge_exclusive_def linexp_value_def)
  from h have "(battery_mode h, Binary) \<in> set (variables m)"
    unfolding build_eq(1) [OF b] by (simp add: mode_variables_def)
  with v have "a (battery_mode h) = 0 \<or> a (battery_mode h) = 1"
    by fastforce
  with 1 2 show ?thesis
    by auto
qed


text \<open>
  Claim C3. The builder takes the mode as an argument. In the strict mode the binary
  variables of the model are exactly one \<open>battery_mode\<close> per representative hour, the two
  big-M constraints of every hour (and year) are among the constraints, and no feasible
  assignment charges and discharges in the same hour. In the relaxed mode the model has
  no binary variable, no \<open>battery_mode\<close> variable and no constraint that mentions one, and
  (with a positive interconnection cap and a non-negative on-site cap) charging and
  discharging in the same hour is feasible.
\<close>

theorem build_mode_exclusivity:
  assumes "build sc days md M = Inr m"
  shows "(md = MILP_STRICT \<longrightarrow>
            filter (\<lambda>p. snd p = Binary) (variables m)
              = map (\<lambda>h. (battery_mode h, Binary)) [0..<length (rep_hours days)]
            \<and> (\<forall>h < length (rep_hours days). \<forall>y \<in> set (years sc).
                  charge_exclusive M y h \<in> set (constraints m)
                  \<and> discharge_exclusive M y h \<in> set (constraints m))
            \<and> (\<forall>a. feasible m a \<longrightarrow>
                  (\<forall>h < length (rep_hours days). \<forall>y \<in> set (years sc).
                     \<not> (0 < a (pv_to_battery h y) + a (grid_to_battery h y)
                        \<and> 0 < a (battery_to_grid h y) + a (battery_to_onsite h y)))))
       \<and> (md = LP_RELAXED \<longrightarrow>
            filter (\<lambda>p. snd p = Binary) (variables m) = []
            \<and> (\<forall>h. battery_mode h \<notin> fst ` set (variables m)
                  \<and> (\<forall>c \<in> set (constraints m). battery_mode h \<notin> vars_of c))
            \<and> (0 < interconnection_capacity_mw sc \<and> 0 \<le> onsite_load_max_mw sc \<longrightarrow>
                  feasible m (simultaneous (interconnection_capacity_mw sc))
                  \<and> 0 < simultaneous (interconnection_capacity_mw sc) (grid_to_battery 0 1)
                  \<and> 0 < simultaneous (interconnection_capacity_mw sc) (battery_to_grid 0 1)))"
proof (cases md)
  case LP_RELAXED
  with assms have b: "build sc days LP_RELAXED M = Inr m"
    by simp
  from binary_variables [OF b] have "filter (\<lambda>p. snd p = Binary) (variables m) = []"
    by simp
  moreover have "battery_mode h \<notin> fst ` set (variables m)" for h
    using b by (rule relaxed_no_mode_variable)
  moreover have "\<forall>c \<in> set (constraints m). battery_mode h \<notin> vars_of c" for h
    using relaxed_no_mode_constraint [OF b] by blast
  moreover have "feasible m (simultaneous (interconnection_capacity_mw sc))"
    if "0 < interconnection_capacity_mw sc" "0 \<le> onsite_load_max_mw sc"
    using b that by (rule simultaneous_feasible)
  ultimately show ?thesis
    using LP_RELAXED by (simp add: simultaneous_def)
next
  case MILP_STRICT
  with assms have b: "build sc days MILP_STRICT M = Inr m"
    by simp
  from binary_variables [OF b]
  have "filter (\<lambda>p. snd p = Binary) (variables m)
      = map (\<lambda>h. (battery_mode h, Binary)) [0..<length (rep_hours days)]"
    by simp
  moreover have "charge_exclusive M y h \<in> set (constraints m)
      \<and> discharge_exclusive M y h \<in> set (constraints m)"
    if "h < length (rep_hours days)" "y \<in> set (years sc)" for h y
    using strict_has_constraints [OF b that] by simp
  moreover have "\<not> (0 < a (pv_to_battery h y) + a (grid_to_battery h y)
                        \<and> 0 < a (battery_to_grid h y) + a (battery_to_onsite h y))"
    if "feasible m a" "h < length (rep_hours days)" "y \<in> set (years sc)" for a h y
    using b that by (rule strict_exclusive)
  ultimately show ?thesis
    using MILP_STRICT by blast
qed

theorem build_mode_exclusivity_witness:
  "(case build seed_scenario [seed_day] LP_RELAXED 11 of
      Inl e \<Rightarrow> False
    | Inr m \<Rightarrow>
        filter (\<lambda>p. snd p = Binary) (variables m) = []
        \<and> feasible m (simultaneous 10)
        \<and> simultaneous 10 (grid_to_battery 0 1) = 10
        \<and> simultaneous 10 (battery_to_grid 0 1) = 10)
   \<and> (case build seed_scenario [seed_day] MILP_STRICT 11 of
      Inl e \<Rightarrow> False
    | Inr m \<Rightarrow>
        filter (\<lambda>p. snd p = Binary) (variables m) = map (\<lambda>h. (battery_mode h, Binary)) [0..<24]
        \<and> charge_exclusive 11 1 0 \<in> set (constraints m)
        \<and> discharge_exclusive 11 1 0 \<in> set (constraints m)
        \<and> \<not> feasible m (simultaneous 10))"
proof -
  from seed_build obtain m where b: "build seed_scenario [seed_day] LP_RELAXED 11 = Inr m"
    by blast
  from seed_build obtain m' where b': "build seed_scenario [seed_day] MILP_STRICT 11 = Inr m'"
    by blast
  have c: "interconnection_capacity_mw seed_scenario = 10" "onsite_load_max_mw seed_scenario = 0"
    by (simp_all add: seed_scenario_def)
  have y: "1 \<in> set (years seed_scenario)"
    by (simp add: seed_years)
  from build_mode_exclusivity [OF b]
  have 1: "filter (\<lambda>p. snd p = Binary) (variables m) = [] \<and> feasible m (simultaneous 10)"
    by (simp add: c)
  from build_mode_exclusivity [OF b']
  have s: "filter (\<lambda>p. snd p = Binary) (variables m')
             = map (\<lambda>h. (battery_mode h, Binary)) [0..<24]"
    and e: "\<forall>h < 24. \<forall>y \<in> set (years seed_scenario).
              charge_exclusive 11 y h \<in> set (constraints m')
              \<and> discharge_exclusive 11 y h \<in> set (constraints m')"
    and x: "\<forall>a. feasible m' a \<longrightarrow>
              (\<forall>h < 24. \<forall>y \<in> set (years seed_scenario).
                 \<not> (0 < a (pv_to_battery h y) + a (grid_to_battery h y)
                    \<and> 0 < a (battery_to_grid h y) + a (battery_to_onsite h y)))"
    by (simp_all add: seed_length)
  from e y have 2: "charge_exclusive 11 1 0 \<in> set (constraints m')
      \<and> discharge_exclusive 11 1 0 \<in> set (constraints m')"
    by simp
  have 3: "\<not> feasible m' (simultaneous 10)"
  proof
    assume "feasible m' (simultaneous 10)"
    with x y have "\<not> (0 < simultaneous 10 (pv_to_battery 0 1) + simultaneous 10 (grid_to_battery 0 1)
        \<and> 0 < simultaneous 10 (battery_to_grid 0 1) + simultaneous 10 (battery_to_onsite 0 1))"
      by simp
    then show False
      by (simp add: simultaneous_def)
  qed
  from 1 s 2 3 show ?thesis
    by (simp add: b b' simultaneous_def)
qed
end
